theory Spec2Isabelle
  imports Main
begin

section \<open>Overview\<close>

text \<open>
  The server is an Express application that copies new posts of a Blogger feed to a
  Telegram channel and records the posts it has sent in the table \<open>synced_posts\<close>. The
  repository holds the server twice. The file part_000 asks Gemini for the caption of a
  post; the file part_001 computes the caption itself and adds to the handler of
  \<open>POST /api/sync\<close> a test of Blogger's error object, a cap of three posts per cycle, a
  \<open>try\<close>/\<open>catch\<close> around each post and a text-only retry of a refused photo. Both
  handlers are modelled, with the suffixes \<open>_000\<close> and \<open>_001\<close>; \<open>getSetting\<close>,
  \<open>setSetting\<close> and \<open>sendToTelegram\<close> are the same text in both files and are modelled
  once.

  What the model takes for granted: the body of a request is a JSON object whose four
  credentials are strings or absent; the body of Blogger's answer is a JSON object whose
  \<open>items\<close>, when present, is an array of posts with a string \<open>id\<close>; the database is
  open and holds both tables, so that the one statement that can fail is the insert of a
  key that is already there; a handler runs from its start to its end with no other
  request in between. The column \<open>synced_at\<close> and the handler of \<open>/api/status\<close> are
  left out.
\<close>

section \<open>JavaScript values\<close>

text \<open>
  A value that is either a string or \<open>undefined\<close>/\<open>null\<close> is a \<open>string option\<close>.
  Strings are lists of code units; the one non-ASCII constant of the program (the link
  emoji of the call-to-action line) is written as its UTF-8 bytes.
\<close>

definition truthy :: "string option \<Rightarrow> bool" where
  \<comment> \<open>JavaScript truthiness of a string-or-undefined: \<open>undefined\<close> and \<open>""\<close> are falsy.\<close>
  "truthy v = (case v of None \<Rightarrow> False | Some s \<Rightarrow> s \<noteq> [])"

definition js_or :: "string option \<Rightarrow> string option \<Rightarrow> string option" where
  \<comment> \<open>\<open>a || b\<close>\<close>
  "js_or a b = (if truthy a then a else b)"

definition template :: "string option \<Rightarrow> string" where
  \<comment> \<open>\<open>${v}\<close> inside a template literal\<close>
  "template v = (case v of None \<Rightarrow> ''undefined'' | Some s \<Rightarrow> s)"

text \<open>How an awaited call settles: it throws an error with a message, or returns.\<close>

datatype 'a outcome = Throws string | Returns 'a

section \<open>Data\<close>

text \<open>
  A post of the Blogger feed. \<open>post.id\<close> is the ledger key (a string); every other
  property may be absent. An element of \<open>post.images\<close> is reduced to its \<open>url\<close> property.
\<close>

record post =
  post_id :: string
  title :: "string option"
  content :: "string option"
  url :: "string option"
  images :: "string option list option"

record blogger_error =
  message :: "string option"

record blogger_data =
  error :: "blogger_error option"
  items :: "post list option"

text \<open>The JSON body of a Telegram request (\<open>parse_mode\<close> is always \<open>"HTML"\<close>).\<close>

datatype tg_body =
    Send_Message (chat_id: string) (msg: string)
  | Send_Photo (chat_id: string) (photo: string) (msg: string)

record tg_response =
  ok :: bool
  json :: "string outcome"

text \<open>The credentials a request to \<open>/api/sync\<close> may carry in its body.\<close>

record sync_body =
  BLOGGER_API_KEY :: "string option"
  BLOGGER_BLOG_ID :: "string option"
  TELEGRAM_BOT_TOKEN :: "string option"
  TELEGRAM_CHANNEL_ID :: "string option"

datatype json_body = Error_Body string | Sync_Body string nat

datatype http_response = Json nat json_body

section \<open>Effects\<close>

text \<open>
  Every side effect of a handler is an event of the trace, in program order: a network
  call with the way it settled, a row inserted into \<open>synced_posts\<close>, a line written by
  \<open>console.error\<close>. Progress lines written by \<open>console.log\<close> carry nothing the
  program reads back and are left out.
\<close>

datatype console_entry =
    Sync_Missing_Configuration bool bool bool bool
  | Blogger_API_Error blogger_error
  | Telegram_Send_Failed string
  | Error_Processing_Post string string
  | Global_Sync_Error string
  | Sync_Error string
  | Gemini_Error string
  | Telegram_API_Error string

datatype event =
    Blogger_Call string "blogger_data outcome"
  | Gemini_Call string "string option outcome"
  | Telegram_Call string tg_body "tg_response outcome"
  | Db_Insert string
  | Console_Error console_entry

text \<open>
  The process state: the two tables of the database, the process environment, and the
  trace. The ledger \<open>synced_posts\<close> holds the \<open>post_id\<close> column in insertion order.
\<close>

record world =
  synced_posts :: "string list"
  settings :: "string \<rightharpoonup> string"
  environ :: "string \<rightharpoonup> string"
  trace :: "event list"

text \<open>
  The remote services. Each answers a request given everything that happened before it
  (the trace), so the same request may be answered differently at different times.
\<close>

record network =
  blogger_api :: "event list \<Rightarrow> string \<Rightarrow> blogger_data outcome"
  gemini_api :: "event list \<Rightarrow> string \<Rightarrow> string option outcome"
  telegram_api :: "event list \<Rightarrow> string \<Rightarrow> tg_body \<Rightarrow> tg_response outcome"

definition emit :: "event \<Rightarrow> world \<Rightarrow> world" where
  "emit e w = w\<lparr>trace := trace w @ [e]\<rparr>"

definition console_error :: "console_entry \<Rightarrow> world \<Rightarrow> world" where
  "console_error c w = emit (Console_Error c) w"

definition fetch_blogger :: "network \<Rightarrow> string \<Rightarrow> world \<Rightarrow> blogger_data outcome \<times> world" where
  \<comment> \<open>\<open>await fetch(bloggerUrl)\<close> followed by \<open>await response.json()\<close>\<close>
  "fetch_blogger net u w =
     (let r = blogger_api net (trace w) u in (r, emit (Blogger_Call u r) w))"

definition fetch_telegram ::
  "network \<Rightarrow> string \<Rightarrow> tg_body \<Rightarrow> world \<Rightarrow> tg_response outcome \<times> world" where
  \<comment> \<open>\<open>await fetch(telegramUrl, {method: "POST", ..., body: JSON.stringify(body)})\<close>\<close>
  "fetch_telegram net u b w =
     (let r = telegram_api net (trace w) u b in (r, emit (Telegram_Call u b r) w))"

definition insert_synced_post :: "string \<Rightarrow> world \<Rightarrow> world outcome" where
  \<comment> \<open>\<open>INSERT INTO synced_posts (post_id) VALUES (?)\<close>; \<open>post_id\<close> is the primary key\<close>
  "insert_synced_post i w =
     (if i \<in> set (synced_posts w)
      then Throws ''UNIQUE constraint failed: synced_posts.post_id''
      else Returns (emit (Db_Insert i) (w\<lparr>synced_posts := synced_posts w @ [i]\<rparr>)))"

section \<open>Settings\<close>

definition getSetting :: "world \<Rightarrow> string \<Rightarrow> string option" where
  \<comment> \<open>\<open>row?.value || process.env[key]\<close>\<close>
  "getSetting w key = js_or (settings w key) (environ w key)"

definition setSetting :: "string \<Rightarrow> string \<Rightarrow> world \<Rightarrow> world" where
  \<comment> \<open>\<open>INSERT OR REPLACE INTO settings (key, value) VALUES (?, ?)\<close>\<close>
  "setSetting key v w = w\<lparr>settings := (settings w)(key \<mapsto> v)\<rparr>"

definition resolve :: "string option \<Rightarrow> world \<Rightarrow> string \<Rightarrow> string option" where
  \<comment> \<open>\<open>KEY || getSetting("KEY")\<close>, with \<open>KEY\<close> read from the request body\<close>
  "resolve override w key = js_or override (getSetting w key)"

section \<open>Text\<close>

definition download_line :: string where
  \<comment> \<open>\<open>"\\n\\n<link emoji> Download Now: "\<close>\<close>
  "download_line =
     [CHR 0x0A, CHR 0x0A, CHR 0xF0, CHR 0x9F, CHR 0x94, CHR 0x97] @ '' Download Now: ''"

function strip_tags :: "string \<Rightarrow> string" where
  \<comment> \<open>\<open>s.replace(/<[^>]*>/g, "")\<close>\<close>
  "strip_tags [] = []"
| "strip_tags (c # cs) =
     (if c = CHR ''<'' \<and> CHR ''>'' \<in> set cs
      then strip_tags (tl (dropWhile (\<lambda>x. x \<noteq> CHR ''>'') cs))
      else c # strip_tags cs)"
  by pat_completeness auto
termination
proof (relation "measure length")
  show "wf (measure length)" by simp
next
  fix c :: char and cs :: string
  have "length (tl (dropWhile (\<lambda>x. x \<noteq> CHR ''>'') cs)) \<le> length cs"
    using length_dropWhile_le [of "\<lambda>x. x \<noteq> CHR ''>''" cs] by simp
  then show "(tl (dropWhile (\<lambda>x. x \<noteq> CHR ''>'') cs), c # cs) \<in> measure length"
    by simp
next
  fix c :: char and cs :: string
  show "(cs, c # cs) \<in> measure length" by simp
qed

definition src_here :: "string \<Rightarrow> string option" where
  \<comment> \<open>\<open>src="([^">]+)"\<close> at the head of a run holding no closing angle bracket\<close>
  "src_here s =
     (if take 5 s = ''src='' @ [CHR 0x22]
      then (let g = takeWhile (\<lambda>x. x \<noteq> CHR 0x22) (drop 5 s)
            in if g \<noteq> [] \<and> drop (5 + length g) s \<noteq> [] then Some g else None)
      else None)"

fun src_attr :: "string \<Rightarrow> string option" where
  \<comment> \<open>the greedy \<open>[^>]+\<close> gives way from the right: the last \<open>src\<close> that matches wins\<close>
  "src_attr [] = None"
| "src_attr (c # cs) =
     (case src_attr cs of Some g \<Rightarrow> Some g | None \<Rightarrow> src_here (c # cs))"

fun img_match :: "string \<Rightarrow> string option" where
  \<comment> \<open>group 1 of \<open>s.match(/<img[^>]+src="([^">]+)"/)\<close>, \<open>None\<close> when there is no match\<close>
  "img_match [] = None"
| "img_match (c # cs) =
     (if take 4 (c # cs) = ''<img''
      then (case src_attr (tl (takeWhile (\<lambda>x. x \<noteq> CHR ''>'') (drop 4 (c # cs)))) of
              Some g \<Rightarrow> Some g
            | None \<Rightarrow> img_match cs)
      else img_match cs)"

definition bloggerUrl :: "string \<Rightarrow> string \<Rightarrow> string" where
  "bloggerUrl blogId apiKey =
     ''https://www.googleapis.com/blogger/v3/blogs/'' @ blogId
       @ ''/posts?key='' @ apiKey @ ''&maxResults=10''"

section \<open>Resolving the image and the caption\<close>

definition first_image_url :: "post \<Rightarrow> string option" where
  \<comment> \<open>\<open>post.images?.[0]?.url\<close>\<close>
  "first_image_url p =
     (case images p of None \<Rightarrow> None | Some [] \<Rightarrow> None | Some (i # _) \<Rightarrow> i)"

definition match_of_undefined :: string where
  \<comment> \<open>the message of the TypeError raised by \<open>undefined.match(...)\<close>\<close>
  "match_of_undefined = ''Cannot read properties of undefined (reading 'match')''"

definition resolve_image :: "post \<Rightarrow> string option outcome" where
  \<comment> \<open>\<open>let imageUrl = ...; if (!imageUrl) { const imgMatch = post.content.match(...); ... }\<close>:
      reading \<open>match\<close> off an absent \<open>content\<close> is a TypeError\<close>
  "resolve_image p =
     (let imageUrl = first_image_url p
      in if \<not> truthy imageUrl
         then (case content p of
                 None \<Rightarrow> Throws match_of_undefined
               | Some c \<Rightarrow>
                   (case img_match c of
                      Some g \<Rightarrow> Returns (Some g)
                    | None \<Rightarrow> Returns imageUrl))
         else Returns imageUrl)"

definition extractMovieDetails_001 :: "post \<Rightarrow> string" where
  \<comment> \<open>part_001: the caption is the title in bold and a tag-stripped excerpt\<close>
  "extractMovieDetails_001 p =
     (let title' = template (js_or (title p) (Some ''New Movie Post''));
          content' = template (js_or (content p) (Some []));
          snippet = take 200 (strip_tags content') @ ''...''
      in ''<b>'' @ title' @ ''</b>'' @ [CHR 0x0A, CHR 0x0A] @ snippet)"

definition extractMovieDetails_000 ::
  "network \<Rightarrow> string option \<Rightarrow> world \<Rightarrow> string \<times> world" where
  \<comment> \<open>part_000: the caption is asked of Gemini; the fixed prompt around \<open>${content}\<close> is
      left out of the request. A failure is caught and replaced by a fixed caption.\<close>
  "extractMovieDetails_000 net c w =
     (let r = gemini_api net (trace w) (template c);
          w1 = emit (Gemini_Call (template c) r) w
      in case r of
           Throws e \<Rightarrow> (''Error extracting details.'', console_error (Gemini_Error e) w1)
         | Returns t \<Rightarrow> (template (js_or t (Some ''Failed to extract details.'')), w1))"

section \<open>sendToTelegram\<close>

text \<open>
  The function of part_000 (lines 79 to 122) and part_001 (lines 76 to 119). Neither
  handler calls it: each sends to Telegram with code of its own. It reads the bot token
  and the channel from the settings, sends a photo when it is given an image and a text
  otherwise, and after a refused photo calls itself once more without the image.
\<close>

function sendToTelegram ::
  "network \<Rightarrow> string \<Rightarrow> string \<Rightarrow> string option \<Rightarrow> world \<Rightarrow> unit outcome \<times> world" where
  "sendToTelegram net message' url' imageUrl w =
     (let botToken = getSetting w ''TELEGRAM_BOT_TOKEN'';
          chatId = getSetting w ''TELEGRAM_CHANNEL_ID''
      in if \<not> truthy botToken \<or> \<not> truthy chatId
         then (Throws ''Telegram credentials missing'', w)
         else
           (let fullMessage = message' @ download_line @ url';
                telegramUrl =
                  (if truthy imageUrl
                   then ''https://api.telegram.org/bot'' @ template botToken @ ''/sendPhoto''
                   else ''https://api.telegram.org/bot'' @ template botToken @ ''/sendMessage'');
                body =
                  (if truthy imageUrl
                   then Send_Photo (template chatId) (template imageUrl) fullMessage
                   else Send_Message (template chatId) fullMessage);
                response = fst (fetch_telegram net telegramUrl body w);
                w1 = snd (fetch_telegram net telegramUrl body w)
            in case response of
                 Throws e \<Rightarrow> (Throws e, w1)
               | Returns r \<Rightarrow>
                   if \<not> ok r
                   then (case json r of
                           Throws e \<Rightarrow> (Throws e, w1)
                         | Returns errorData \<Rightarrow>
                             (let w2 = console_error (Telegram_API_Error errorData) w1
                              in if truthy imageUrl
                                 then sendToTelegram net message' url' None w2
                                 else (Throws (''Telegram failed: '' @ errorData), w2)))
                   else (Returns (), w1)))"
  by pat_completeness auto
termination
  by (relation "measure (\<lambda>(net, m, u, i, w). if truthy i then 1 else 0)")
     (auto simp: truthy_def)

declare sendToTelegram.simps [simp del]

section \<open>The \<open>/api/sync\<close> handler of part_001\<close>

text \<open>
  Lines 142 to 240 of part_001: the body of the \<open>try\<close> for one post (lines 178 to
  230), the \<open>try\<close>/\<open>catch\<close> around it, the loop over the first three posts, and the
  handler.
\<close>

definition try_post_001 ::
  "network \<Rightarrow> string \<Rightarrow> string \<Rightarrow> post \<Rightarrow> world \<Rightarrow> nat \<Rightarrow> string option \<times> world \<times> nat" where
  \<comment> \<open>The body of the \<open>try\<close> inside the loop, for one post: what it threw (if anything),
      the state it left and \<open>syncedCount\<close>.\<close>
  "try_post_001 net botToken chatId p w n =
     (if post_id p \<in> set (synced_posts w) then (None, w, n)
      else
        (case resolve_image p of
           Throws e \<Rightarrow> (Some e, w, n)
         | Returns imageUrl \<Rightarrow>
             (let details = extractMovieDetails_001 p;
                  fullMessage = details @ download_line @ template (url p);
                  telegramUrl =
                    (if truthy imageUrl
                     then ''https://api.telegram.org/bot'' @ botToken @ ''/sendPhoto''
                     else ''https://api.telegram.org/bot'' @ botToken @ ''/sendMessage'');
                  body =
                    (if truthy imageUrl
                     then Send_Photo chatId (template imageUrl) fullMessage
                     else Send_Message chatId fullMessage);
                  telRes = fst (fetch_telegram net telegramUrl body w);
                  w1 = snd (fetch_telegram net telegramUrl body w)
              in case telRes of
                   Throws e \<Rightarrow> (Some e, w1, n)
                 | Returns r \<Rightarrow>
                     if ok r
                     then (case insert_synced_post (post_id p) w1 of
                             Throws e \<Rightarrow> (Some e, w1, n)
                           | Returns w2 \<Rightarrow> (None, w2, Suc n))
                     else
                       (case json r of
                          Throws e \<Rightarrow> (Some e, w1, n)
                        | Returns telError \<Rightarrow>
                            (let w2 = console_error (Telegram_Send_Failed telError) w1
                             in if truthy imageUrl
                                then
                                  (let textOnlyUrl =
                                         ''https://api.telegram.org/bot'' @ botToken @ ''/sendMessage'';
                                       textOnlyBody = Send_Message chatId fullMessage;
                                       textOnlyRes = fst (fetch_telegram net textOnlyUrl textOnlyBody w2);
                                       w3 = snd (fetch_telegram net textOnlyUrl textOnlyBody w2)
                                   in case textOnlyRes of
                                        Throws e \<Rightarrow> (Some e, w3, n)
                                      | Returns r2 \<Rightarrow>
                                          if ok r2
                                          then (case insert_synced_post (post_id p) w3 of
                                                  Throws e \<Rightarrow> (Some e, w3, n)
                                                | Returns w4 \<Rightarrow> (None, w4, Suc n))
                                          else (None, w3, n))
                                else (None, w2, n))))))"

definition sync_post_001 ::
  "network \<Rightarrow> string \<Rightarrow> string \<Rightarrow> post \<Rightarrow> world \<Rightarrow> nat \<Rightarrow> world \<times> nat" where
  \<comment> \<open>\<open>try { ... } catch (postError) { console.error(...) }\<close>\<close>
  "sync_post_001 net botToken chatId p w n =
     (case try_post_001 net botToken chatId p w n of
        (Some e, w', n') \<Rightarrow> (console_error (Error_Processing_Post (post_id p) e) w', n')
      | (None, w', n') \<Rightarrow> (w', n'))"

fun sync_posts_001 ::
  "network \<Rightarrow> string \<Rightarrow> string \<Rightarrow> post list \<Rightarrow> world \<Rightarrow> nat \<Rightarrow> world \<times> nat" where
  \<comment> \<open>\<open>for (const post of postsToProcess)\<close>\<close>
  "sync_posts_001 net botToken chatId [] w n = (w, n)"
| "sync_posts_001 net botToken chatId (p # ps) w n =
     (case sync_post_001 net botToken chatId p w n of
        (w', n') \<Rightarrow> sync_posts_001 net botToken chatId ps w' n')"

definition sync_001 :: "network \<Rightarrow> sync_body \<Rightarrow> world \<Rightarrow> http_response \<times> world" where
  "sync_001 net body w =
     (let apiKey = resolve (BLOGGER_API_KEY body) w ''BLOGGER_API_KEY'';
          blogId = resolve (BLOGGER_BLOG_ID body) w ''BLOGGER_BLOG_ID'';
          botToken = resolve (TELEGRAM_BOT_TOKEN body) w ''TELEGRAM_BOT_TOKEN'';
          chatId = resolve (TELEGRAM_CHANNEL_ID body) w ''TELEGRAM_CHANNEL_ID''
      in if \<not> truthy apiKey \<or> \<not> truthy blogId \<or> \<not> truthy botToken \<or> \<not> truthy chatId
         then (Json 400 (Error_Body ''Missing configuration. Please check your settings.''),
               console_error
                 (Sync_Missing_Configuration
                    (truthy apiKey) (truthy blogId) (truthy botToken) (truthy chatId)) w)
         else
           (let url' = bloggerUrl (template blogId) (template apiKey);
                data = fst (fetch_blogger net url' w);
                w1 = snd (fetch_blogger net url' w)
            in case data of
                 Throws e \<Rightarrow>
                   (Json 500 (Error_Body (''Sync failed: '' @ e)),
                    console_error (Global_Sync_Error e) w1)
               | Returns d \<Rightarrow>
                   (case error d of
                      Some err \<Rightarrow>
                        (Json 400
                           (Error_Body
                              (''Blogger API Error: ''
                                 @ template (js_or (message err) (Some ''Unknown error'')))),
                         console_error (Blogger_API_Error err) w1)
                    | None \<Rightarrow>
                        (case items d of
                           None \<Rightarrow> (Json 200 (Sync_Body ''No posts found'' 0), w1)
                         | Some its \<Rightarrow>
                             (case sync_posts_001 net (template botToken) (template chatId)
                                     (take 3 its) w1 0 of
                                (w2, syncedCount) \<Rightarrow>
                                  (Json 200 (Sync_Body ''Sync complete'' syncedCount), w2))))))"

section \<open>The \<open>/api/sync\<close> handler of part_000\<close>

text \<open>
  Lines 143 to 206 of part_000: the body of the loop for one post (lines 166 to 199),
  the loop over all posts of the feed, and the handler.
\<close>

definition sync_post_000 ::
  "network \<Rightarrow> string \<Rightarrow> string \<Rightarrow> post \<Rightarrow> world \<Rightarrow> nat \<Rightarrow> string option \<times> world \<times> nat" where
  \<comment> \<open>The body of the loop for one post. Nothing catches here: what it throws leaves
      the loop.\<close>
  "sync_post_000 net botToken chatId p w n =
     (if post_id p \<in> set (synced_posts w) then (None, w, n)
      else
        (case resolve_image p of
           Throws e \<Rightarrow> (Some e, w, n)
         | Returns imageUrl \<Rightarrow>
             (let details = fst (extractMovieDetails_000 net (content p) w);
                  w1 = snd (extractMovieDetails_000 net (content p) w);
                  fullMessage = details @ download_line @ template (url p);
                  telegramUrl =
                    (if truthy imageUrl
                     then ''https://api.telegram.org/bot'' @ botToken @ ''/sendPhoto''
                     else ''https://api.telegram.org/bot'' @ botToken @ ''/sendMessage'');
                  body =
                    (if truthy imageUrl
                     then Send_Photo chatId (template imageUrl) fullMessage
                     else Send_Message chatId fullMessage);
                  telRes = fst (fetch_telegram net telegramUrl body w1);
                  w2 = snd (fetch_telegram net telegramUrl body w1)
              in case telRes of
                   Throws e \<Rightarrow> (Some e, w2, n)
                 | Returns r \<Rightarrow>
                     if ok r
                     then (case insert_synced_post (post_id p) w2 of
                             Throws e \<Rightarrow> (Some e, w2, n)
                           | Returns w3 \<Rightarrow> (None, w3, Suc n))
                     else (None, w2, n))))"

fun sync_posts_000 ::
  "network \<Rightarrow> string \<Rightarrow> string \<Rightarrow> post list \<Rightarrow> world \<Rightarrow> nat \<Rightarrow> string option \<times> world \<times> nat" where
  \<comment> \<open>\<open>for (const post of data.items)\<close>: the first throw ends the loop\<close>
  "sync_posts_000 net botToken chatId [] w n = (None, w, n)"
| "sync_posts_000 net botToken chatId (p # ps) w n =
     (case sync_post_000 net botToken chatId p w n of
        (Some e, w', n') \<Rightarrow> (Some e, w', n')
      | (None, w', n') \<Rightarrow> sync_posts_000 net botToken chatId ps w' n')"

definition sync_000 :: "network \<Rightarrow> sync_body \<Rightarrow> world \<Rightarrow> http_response \<times> world" where
  "sync_000 net body w =
     (let apiKey = resolve (BLOGGER_API_KEY body) w ''BLOGGER_API_KEY'';
          blogId = resolve (BLOGGER_BLOG_ID body) w ''BLOGGER_BLOG_ID'';
          botToken = resolve (TELEGRAM_BOT_TOKEN body) w ''TELEGRAM_BOT_TOKEN'';
          chatId = resolve (TELEGRAM_CHANNEL_ID body) w ''TELEGRAM_CHANNEL_ID''
      in if \<not> truthy apiKey \<or> \<not> truthy blogId \<or> \<not> truthy botToken \<or> \<not> truthy chatId
         then (Json 400 (Error_Body ''Missing configuration''), w)
         else
           (let url' = bloggerUrl (template blogId) (template apiKey);
                data = fst (fetch_blogger net url' w);
                w1 = snd (fetch_blogger net url' w)
            in case data of
                 Throws e \<Rightarrow> (Json 500 (Error_Body e), console_error (Sync_Error e) w1)
               | Returns d \<Rightarrow>
                   (case items d of
                      None \<Rightarrow> (Json 200 (Sync_Body ''No posts found'' 0), w1)
                    | Some its \<Rightarrow>
                        (case sync_posts_000 net (template botToken) (template chatId) its w1 0 of
                           (Some e, w2, syncedCount) \<Rightarrow>
                             (Json 500 (Error_Body e), console_error (Sync_Error e) w2)
                         | (None, w2, syncedCount) \<Rightarrow>
                             (Json 200 (Sync_Body ''Sync complete'' syncedCount), w2)))))"

section \<open>Reading the trace\<close>

text \<open>The vocabulary of the statements below; none of it is code of the program.\<close>

definition new_events :: "world \<Rightarrow> world \<Rightarrow> event list" where
  \<comment> \<open>what happened between two states of one run\<close>
  "new_events w w' = drop (length (trace w)) (trace w')"

fun inserted :: "event list \<Rightarrow> string list" where
  "inserted [] = []"
| "inserted (Db_Insert i # es) = i # inserted es"
| "inserted (e # es) = inserted es"

fun is_network_call :: "event \<Rightarrow> bool" where
  "is_network_call (Blogger_Call u r) = True"
| "is_network_call (Gemini_Call c r) = True"
| "is_network_call (Telegram_Call u b r) = True"
| "is_network_call e = False"

fun is_telegram_call :: "event \<Rightarrow> bool" where
  "is_telegram_call (Telegram_Call u b r) = True"
| "is_telegram_call e = False"

fun is_console_error :: "event \<Rightarrow> bool" where
  "is_console_error (Console_Error c) = True"
| "is_console_error e = False"

definition ends_with :: "string \<Rightarrow> string \<Rightarrow> bool" where
  "ends_with s t = (length t \<le> length s \<and> drop (length s - length t) s = t)"

fun delivered :: "post \<Rightarrow> event \<Rightarrow> bool" where
  \<comment> \<open>a Telegram call that returned a success response and carried the post's
      call-to-action line\<close>
  "delivered p (Telegram_Call u b (Returns r)) =
     (ok r \<and> ends_with (msg b) (download_line @ template (url p)))"
| "delivered p e = False"

fun justified :: "post list \<Rightarrow> event option \<Rightarrow> event list \<Rightarrow> bool" where
  \<comment> \<open>every insert into the ledger comes right after the successful delivery of a post
      with that id; the second argument is the event before the list\<close>
  "justified ps prev [] = True"
| "justified ps prev (Db_Insert i # es) =
     ((case prev of
         None \<Rightarrow> False
       | Some e \<Rightarrow> list_ex (\<lambda>p. post_id p = i \<and> delivered p e) ps)
      \<and> justified ps (Some (Db_Insert i)) es)"
| "justified ps prev (e # es) = justified ps (Some e) es"

fun feed :: "event list \<Rightarrow> post list" where
  \<comment> \<open>the posts of the Blogger response that opens a cycle\<close>
  "feed (Blogger_Call u (Returns d) # es) = (case items d of None \<Rightarrow> [] | Some its \<Rightarrow> its)"
| "feed es = []"

definition upstream :: "network \<Rightarrow> sync_body \<Rightarrow> world \<Rightarrow> blogger_data outcome" where
  \<comment> \<open>what the Blogger service answers to the fetch of this cycle\<close>
  "upstream net body w =
     blogger_api net (trace w)
       (bloggerUrl (template (resolve (BLOGGER_BLOG_ID body) w ''BLOGGER_BLOG_ID''))
          (template (resolve (BLOGGER_API_KEY body) w ''BLOGGER_API_KEY'')))"

fun status :: "http_response \<Rightarrow> nat" where
  "status (Json s b) = s"

fun succeeded :: "tg_response outcome \<Rightarrow> bool" where
  \<comment> \<open>the call returned, with \<open>response.ok\<close>\<close>
  "succeeded (Returns r) = ok r"
| "succeeded (Throws e) = False"

definition carries :: "post \<Rightarrow> tg_body \<Rightarrow> bool" where
  \<comment> \<open>the body ends with the call-to-action line of the post\<close>
  "carries p b = ends_with (msg b) (download_line @ template (url p))"

fun attempts_for :: "post list \<Rightarrow> event list \<Rightarrow> bool" where
  \<comment> \<open>every call to Telegram among the events carries the message of one of the posts\<close>
  "attempts_for ps [] = True"
| "attempts_for ps (Telegram_Call u b r # es) =
     (list_ex (\<lambda>p. carries p b) ps \<and> attempts_for ps es)"
| "attempts_for ps (e # es) = attempts_for ps es"

definition candidates :: "world \<Rightarrow> post list \<Rightarrow> post list" where
  \<comment> \<open>the posts whose id is not in the ledger\<close>
  "candidates w ps = filter (\<lambda>p. post_id p \<notin> set (synced_posts w)) ps"

definition message_001 :: "post \<Rightarrow> string" where
  \<comment> \<open>\<open>fullMessage\<close> of part_001 for a post\<close>
  "message_001 p = extractMovieDetails_001 p @ download_line @ template (url p)"

definition line_for :: "post \<Rightarrow> event option \<Rightarrow> event \<Rightarrow> bool" where
  \<comment> \<open>the event is a line of the error console about the post: the line of the
      \<open>catch\<close> with the id of the post, or the line of a refusal right after the refused
      call that carried the message of the post; the second argument is the event before\<close>
  "line_for p prev e =
     (case e of
        Console_Error (Error_Processing_Post i m) \<Rightarrow> i = post_id p
      | Console_Error (Telegram_Send_Failed x) \<Rightarrow>
          (case prev of
             Some (Telegram_Call u b (Returns r)) \<Rightarrow>
               \<not> ok r \<and> json r = Returns x \<and> msg b = message_001 p
           | _ \<Rightarrow> False)
      | _ \<Rightarrow> False)"

fun reported :: "post \<Rightarrow> event option \<Rightarrow> event list \<Rightarrow> bool" where
  \<comment> \<open>some event of the list is a line of the error console about the post\<close>
  "reported p prev [] = False"
| "reported p prev (e # es) = (line_for p prev e \<or> reported p (Some e) es)"

definition missing_configuration :: "sync_body \<Rightarrow> world \<Rightarrow> bool" where
  \<comment> \<open>the test \<open>!apiKey || !blogId || !botToken || !chatId\<close> of both handlers\<close>
  "missing_configuration body w =
     (\<not> truthy (resolve (BLOGGER_API_KEY body) w ''BLOGGER_API_KEY'')
      \<or> \<not> truthy (resolve (BLOGGER_BLOG_ID body) w ''BLOGGER_BLOG_ID'')
      \<or> \<not> truthy (resolve (TELEGRAM_BOT_TOKEN body) w ''TELEGRAM_BOT_TOKEN'')
      \<or> \<not> truthy (resolve (TELEGRAM_CHANNEL_ID body) w ''TELEGRAM_CHANNEL_ID''))"

definition botToken_of :: "sync_body \<Rightarrow> world \<Rightarrow> string" where
  "botToken_of body w = template (resolve (TELEGRAM_BOT_TOKEN body) w ''TELEGRAM_BOT_TOKEN'')"

definition chatId_of :: "sync_body \<Rightarrow> world \<Rightarrow> string" where
  "chatId_of body w = template (resolve (TELEGRAM_CHANNEL_ID body) w ''TELEGRAM_CHANNEL_ID'')"

definition fetched :: "network \<Rightarrow> sync_body \<Rightarrow> world \<Rightarrow> world" where
  \<comment> \<open>the state right after the fetch of the feed\<close>
  "fetched net body w =
     emit (Blogger_Call
             (bloggerUrl (template (resolve (BLOGGER_BLOG_ID body) w ''BLOGGER_BLOG_ID''))
                (template (resolve (BLOGGER_API_KEY body) w ''BLOGGER_API_KEY'')))
             (upstream net body w)) w"

section \<open>Example inputs\<close>

definition post_a :: post where
  "post_a = \<lparr>post_id = ''a'', title = Some ''A'', content = Some ''<p>x</p>'',
              url = Some ''u/a'', images = None\<rparr>"

definition post_b :: post where
  \<comment> \<open>a post with an image\<close>
  "post_b = \<lparr>post_id = ''b'', title = Some ''B'', content = Some ''y'',
              url = Some ''u/b'', images = Some [Some ''i/b'']\<rparr>"

definition post_c :: post where
  "post_c = \<lparr>post_id = ''c'', title = Some ''C'', content = Some ''z'',
              url = Some ''u/c'', images = None\<rparr>"

definition post_d :: post where
  "post_d = \<lparr>post_id = ''d'', title = None, content = Some [],
              url = Some ''u/d'', images = Some []\<rparr>"

definition post_e :: post where
  "post_e = \<lparr>post_id = ''e'', title = Some ''E'', content = Some ''v'',
              url = None, images = None\<rparr>"

definition post_bare :: post where
  \<comment> \<open>a post with neither an image list nor a content\<close>
  "post_bare = \<lparr>post_id = ''f'', title = Some ''F'', content = None,
                 url = Some ''u/f'', images = None\<rparr>"

definition accepted :: "tg_response outcome" where
  "accepted = Returns \<lparr>ok = True, json = Returns ''{}''\<rparr>"

definition refused :: "tg_response outcome" where
  "refused = Returns \<lparr>ok = False, json = Returns ''{}''\<rparr>"

definition refused_unreadable :: "tg_response outcome" where
  \<comment> \<open>a non-success response whose body is not JSON\<close>
  "refused_unreadable = Returns \<lparr>ok = False, json = Throws ''Unexpected token <''\<rparr>"

definition items_of :: "post list \<Rightarrow> blogger_data outcome" where
  "items_of ps = Returns \<lparr>error = None, items = Some ps\<rparr>"

definition example_net :: "blogger_data outcome \<Rightarrow> tg_response outcome list \<Rightarrow> network" where
  \<comment> \<open>Blogger answers \<open>b\<close>; Telegram answers the k-th call of the run with the k-th
      reply of the list, and accepts every later call\<close>
  "example_net b replies =
     \<lparr>blogger_api = (\<lambda>h u. b),
      gemini_api = (\<lambda>h c. Returns (Some ''G'')),
      telegram_api =
        (\<lambda>h u body.
           (let k = length (filter is_telegram_call h)
            in if k < length replies then replies ! k else accepted))\<rparr>"

definition example_body :: sync_body where
  "example_body = \<lparr>BLOGGER_API_KEY = Some ''k'', BLOGGER_BLOG_ID = Some ''1'',
                    TELEGRAM_BOT_TOKEN = Some [], TELEGRAM_CHANNEL_ID = None\<rparr>"

definition empty_body :: sync_body where
  "empty_body = \<lparr>BLOGGER_API_KEY = None, BLOGGER_BLOG_ID = None,
                  TELEGRAM_BOT_TOKEN = None, TELEGRAM_CHANNEL_ID = None\<rparr>"

definition example_world :: "string list \<Rightarrow> world" where
  \<comment> \<open>the channel is a stored setting, the bot token comes from the environment\<close>
  "example_world ledger =
     \<lparr>synced_posts = ledger,
      settings = [''TELEGRAM_CHANNEL_ID'' \<mapsto> ''@c''],
      environ = [''TELEGRAM_BOT_TOKEN'' \<mapsto> ''t'', ''BLOGGER_API_KEY'' \<mapsto> ''k2''],
      trace = []\<rparr>"

definition one_refusal :: network where
  \<comment> \<open>posts a and c; Telegram refuses the first call\<close>
  "one_refusal = example_net (items_of [post_a, post_c]) [refused]"

definition one_outage :: network where
  \<comment> \<open>posts a and c; the first call to Telegram throws\<close>
  "one_outage = example_net (items_of [post_a, post_c]) [Throws ''fetch failed'']"

definition four_posts :: network where
  "four_posts = example_net (items_of [post_a, post_c, post_d, post_e]) []"

definition photo_then_text :: network where
  \<comment> \<open>post b; Telegram refuses the photo and accepts the text\<close>
  "photo_then_text = example_net (items_of [post_b]) [refused]"

definition photo_refused_twice :: network where
  "photo_refused_twice = example_net (items_of [post_b]) [refused, refused]"

definition photo_refused_unreadable :: network where
  "photo_refused_unreadable = example_net (items_of [post_b]) [refused_unreadable]"

definition upstream_error :: network where
  \<comment> \<open>Blogger answers with an error object and no items\<close>
  "upstream_error =
     example_net (Returns \<lparr>error = Some \<lparr>message = Some ''API key not valid''\<rparr>,
                            items = None\<rparr>) []"

definition empty_feed :: network where
  "empty_feed = example_net (items_of []) []"

definition lone_refusal :: network where
  \<comment> \<open>post a alone; Telegram refuses it\<close>
  "lone_refusal = example_net (items_of [post_a]) [refused]"

definition two_posts :: network where
  \<comment> \<open>posts a and c; Telegram accepts every call\<close>
  "two_posts = example_net (items_of [post_a, post_c]) []"

definition two_refusals :: network where
  \<comment> \<open>posts a and c; Telegram refuses both\<close>
  "two_refusals = example_net (items_of [post_a, post_c]) [refused, refused]"

section \<open>The ledger and the trace\<close>

lemma emit_simps [simp]:
  "trace (emit e w) = trace w @ [e]"
  "synced_posts (emit e w) = synced_posts w"
  "settings (emit e w) = settings w"
  "environ (emit e w) = environ w"
  by (simp_all add: emit_def)

lemma console_error_simps [simp]:
  "trace (console_error c w) = trace w @ [Console_Error c]"
  "synced_posts (console_error c w) = synced_posts w"
  "settings (console_error c w) = settings w"
  "environ (console_error c w) = environ w"
  by (simp_all add: console_error_def)

lemma fetch_telegram_simps [simp]:
  "fst (fetch_telegram net u b w) = telegram_api net (trace w) u b"
  "snd (fetch_telegram net u b w) = emit (Telegram_Call u b (telegram_api net (trace w) u b)) w"
  by (simp_all add: fetch_telegram_def Let_def)

lemma fetch_blogger_simps [simp]:
  "fst (fetch_blogger net u w) = blogger_api net (trace w) u"
  "snd (fetch_blogger net u w) = emit (Blogger_Call u (blogger_api net (trace w) u)) w"
  by (simp_all add: fetch_blogger_def Let_def)

lemma inserted_append [simp]: "inserted (a @ b) = inserted a @ inserted b"
  by (induction a rule: inserted.induct) simp_all

lemma justified_append:
  "justified ps prev (a @ b) =
     (justified ps prev a \<and> justified ps (if a = [] then prev else Some (last a)) b)"
  by (induction ps prev a rule: justified.induct) auto

lemma justified_mono:
  "justified ps prev es \<Longrightarrow> set ps \<subseteq> set qs \<Longrightarrow> justified qs prev es"
  by (induction ps prev es rule: justified.induct) (auto simp: list_ex_iff split: option.splits)

text \<open>
  What the processing of one post appends to the trace, in every branch: the ledger
  grows by the inserts among the new events, the count by their number, and every
  insert follows a successful delivery of the post.
\<close>

lemma try_post_001_shape:
  assumes "try_post_001 net t c p w n = (thr, w', n')"
  shows "\<exists>evs. trace w' = trace w @ evs \<and> settings w' = settings w \<and> environ w' = environ w \<and>
           synced_posts w' = synced_posts w @ inserted evs \<and>
           n' = n + length (inserted evs) \<and>
           (\<forall>prev. justified [p] prev evs)"
  using assms
  unfolding try_post_001_def insert_synced_post_def Let_def
  by (auto split: if_splits outcome.splits simp: ends_with_def)


lemma sync_post_001_shape:
  assumes "sync_post_001 net t c p w n = (w', n')"
  shows "\<exists>evs. trace w' = trace w @ evs \<and> settings w' = settings w \<and> environ w' = environ w \<and>
           synced_posts w' = synced_posts w @ inserted evs \<and>
           n' = n + length (inserted evs) \<and>
           (\<forall>prev. justified [p] prev evs)"
proof (cases "try_post_001 net t c p w n")
  case (fields thr w1 n1)
  from try_post_001_shape [OF fields] obtain evs where evs:
    "trace w1 = trace w @ evs" "settings w1 = settings w" "environ w1 = environ w"
    "synced_posts w1 = synced_posts w @ inserted evs" "n1 = n + length (inserted evs)"
    "\<forall>prev. justified [p] prev evs"
    by blast
  show ?thesis
  proof (cases thr)
    case None
    with fields assms have "w' = w1" "n' = n1" by (simp_all add: sync_post_001_def)
    with evs show ?thesis by blast
  next
    case (Some e)
    with fields assms have w': "w' = console_error (Error_Processing_Post (post_id p) e) w1"
      and n': "n' = n1" by (simp_all add: sync_post_001_def)
    let ?evs = "evs @ [Console_Error (Error_Processing_Post (post_id p) e)]"
    have "trace w' = trace w @ ?evs" using w' evs by simp
    moreover have "synced_posts w' = synced_posts w @ inserted ?evs" using w' evs by simp
    moreover have "n' = n + length (inserted ?evs)" using n' evs by simp
    moreover have "\<forall>prev. justified [p] prev ?evs" using evs by (simp add: justified_append)
    moreover have "settings w' = settings w" "environ w' = environ w" using w' evs by simp_all
    ultimately show ?thesis by blast
  qed
qed

lemma sync_posts_001_shape:
  "sync_posts_001 net t c ps w n = (w', n') \<Longrightarrow>
     \<exists>evs. trace w' = trace w @ evs \<and> settings w' = settings w \<and> environ w' = environ w \<and>
           synced_posts w' = synced_posts w @ inserted evs \<and>
           n' = n + length (inserted evs) \<and>
           (\<forall>prev. justified ps prev evs)"
proof (induction ps arbitrary: w n)
  case Nil
  then show ?case by simp
next
  case (Cons p ps)
  obtain w1 n1 where step: "sync_post_001 net t c p w n = (w1, n1)"
    by (cases "sync_post_001 net t c p w n")
  with Cons.prems have rest: "sync_posts_001 net t c ps w1 n1 = (w', n')" by simp
  from sync_post_001_shape [OF step] obtain e1 where e1:
    "trace w1 = trace w @ e1" "settings w1 = settings w" "environ w1 = environ w"
    "synced_posts w1 = synced_posts w @ inserted e1" "n1 = n + length (inserted e1)"
    "\<forall>prev. justified [p] prev e1"
    by blast
  from Cons.IH [OF rest] obtain e2 where e2:
    "trace w' = trace w1 @ e2" "settings w' = settings w1" "environ w' = environ w1"
    "synced_posts w' = synced_posts w1 @ inserted e2" "n' = n1 + length (inserted e2)"
    "\<forall>prev. justified ps prev e2"
    by blast
  have j1: "\<forall>prev. justified (p # ps) prev e1"
    using e1(6) justified_mono [of "[p]" _ e1 "p # ps"] by auto
  have j2: "\<forall>prev. justified (p # ps) prev e2"
    using e2(6) justified_mono [of ps _ e2 "p # ps"] by auto
  have "\<forall>prev. justified (p # ps) prev (e1 @ e2)"
    using j1 j2 by (simp add: justified_append)
  moreover have "trace w' = trace w @ (e1 @ e2)" using e1 e2 by simp
  moreover have "synced_posts w' = synced_posts w @ inserted (e1 @ e2)" using e1 e2 by simp
  moreover have "n' = n + length (inserted (e1 @ e2))" using e1 e2 by simp
  moreover have "settings w' = settings w" "environ w' = environ w" using e1 e2 by simp_all
  ultimately show ?case by blast
qed

lemma sync_post_000_shape:
  assumes "sync_post_000 net t c p w n = (thr, w', n')"
  shows "\<exists>evs. trace w' = trace w @ evs \<and> settings w' = settings w \<and> environ w' = environ w \<and>
           synced_posts w' = synced_posts w @ inserted evs \<and>
           n' = n + length (inserted evs) \<and>
           (\<forall>prev. justified [p] prev evs)"
  using assms
  unfolding sync_post_000_def insert_synced_post_def extractMovieDetails_000_def Let_def
  by (auto split: if_splits outcome.splits simp: ends_with_def)

lemma sync_posts_000_shape:
  "sync_posts_000 net t c ps w n = (thr, w', n') \<Longrightarrow>
     \<exists>evs. trace w' = trace w @ evs \<and> settings w' = settings w \<and> environ w' = environ w \<and>
           synced_posts w' = synced_posts w @ inserted evs \<and>
           n' = n + length (inserted evs) \<and>
           (\<forall>prev. justified ps prev evs)"
proof (induction ps arbitrary: w n)
  case Nil
  then show ?case by simp
next
  case (Cons p ps)
  obtain t1 w1 n1 where step: "sync_post_000 net t c p w n = (t1, w1, n1)"
    by (cases "sync_post_000 net t c p w n")
  from sync_post_000_shape [OF step] obtain e1 where e1:
    "trace w1 = trace w @ e1" "settings w1 = settings w" "environ w1 = environ w"
    "synced_posts w1 = synced_posts w @ inserted e1" "n1 = n + length (inserted e1)"
    "\<forall>prev. justified [p] prev e1"
    by blast
  have j1: "\<forall>prev. justified (p # ps) prev e1"
    using e1(6) justified_mono [of "[p]" _ e1 "p # ps"] by auto
  show ?case
  proof (cases t1)
    case (Some e)
    with step Cons.prems have "w' = w1" "n' = n1" by simp_all
    with e1 j1 show ?thesis by blast
  next
    case None
    with step Cons.prems have rest: "sync_posts_000 net t c ps w1 n1 = (thr, w', n')" by simp
    from Cons.IH [OF rest] obtain e2 where e2:
      "trace w' = trace w1 @ e2" "settings w' = settings w1" "environ w' = environ w1"
      "synced_posts w' = synced_posts w1 @ inserted e2" "n' = n1 + length (inserted e2)"
      "\<forall>prev. justified ps prev e2"
      by blast
    have j2: "\<forall>prev. justified (p # ps) prev e2"
      using e2(6) justified_mono [of ps _ e2 "p # ps"] by auto
    have "\<forall>prev. justified (p # ps) prev (e1 @ e2)"
      using j1 j2 by (simp add: justified_append)
    moreover have "trace w' = trace w @ (e1 @ e2)" using e1 e2 by simp
    moreover have "synced_posts w' = synced_posts w @ inserted (e1 @ e2)" using e1 e2 by simp
    moreover have "n' = n + length (inserted (e1 @ e2))" using e1 e2 by simp
    moreover have "settings w' = settings w" "environ w' = environ w" using e1 e2 by simp_all
    ultimately show ?thesis by blast
  qed
qed


subsection \<open>The branches of the handlers\<close>

lemma sync_001_missing:
  "missing_configuration body w \<Longrightarrow>
   sync_001 net body w =
     (Json 400 (Error_Body ''Missing configuration. Please check your settings.''),
      console_error
        (Sync_Missing_Configuration
           (truthy (resolve (BLOGGER_API_KEY body) w ''BLOGGER_API_KEY''))
           (truthy (resolve (BLOGGER_BLOG_ID body) w ''BLOGGER_BLOG_ID''))
           (truthy (resolve (TELEGRAM_BOT_TOKEN body) w ''TELEGRAM_BOT_TOKEN''))
           (truthy (resolve (TELEGRAM_CHANNEL_ID body) w ''TELEGRAM_CHANNEL_ID''))) w)"
  unfolding sync_001_def missing_configuration_def Let_def by (simp only: if_True)

lemma sync_001_configured:
  "\<not> missing_configuration body w \<Longrightarrow>
   sync_001 net body w =
     (case upstream net body w of
        Throws e \<Rightarrow>
          (Json 500 (Error_Body (''Sync failed: '' @ e)),
           console_error (Global_Sync_Error e) (fetched net body w))
      | Returns d \<Rightarrow>
          (case error d of
             Some err \<Rightarrow>
               (Json 400
                  (Error_Body
                     (''Blogger API Error: ''
                        @ template (js_or (message err) (Some ''Unknown error'')))),
                console_error (Blogger_API_Error err) (fetched net body w))
           | None \<Rightarrow>
               (case items d of
                  None \<Rightarrow> (Json 200 (Sync_Body ''No posts found'' 0), fetched net body w)
                | Some its \<Rightarrow>
                    (case sync_posts_001 net (botToken_of body w) (chatId_of body w)
                            (take 3 its) (fetched net body w) 0 of
                       (w2, syncedCount) \<Rightarrow>
                         (Json 200 (Sync_Body ''Sync complete'' syncedCount), w2)))))"
  unfolding sync_001_def missing_configuration_def Let_def upstream_def fetched_def
    botToken_of_def chatId_of_def fetch_blogger_simps
  by (simp only: if_False)

lemma sync_000_missing:
  "missing_configuration body w \<Longrightarrow>
   sync_000 net body w = (Json 400 (Error_Body ''Missing configuration''), w)"
  unfolding sync_000_def missing_configuration_def Let_def by (simp only: if_True)

lemma sync_000_configured:
  "\<not> missing_configuration body w \<Longrightarrow>
   sync_000 net body w =
     (case upstream net body w of
        Throws e \<Rightarrow> (Json 500 (Error_Body e), console_error (Sync_Error e) (fetched net body w))
      | Returns d \<Rightarrow>
          (case items d of
             None \<Rightarrow> (Json 200 (Sync_Body ''No posts found'' 0), fetched net body w)
           | Some its \<Rightarrow>
               (case sync_posts_000 net (botToken_of body w) (chatId_of body w) its
                       (fetched net body w) 0 of
                  (Some e, w2, syncedCount) \<Rightarrow>
                    (Json 500 (Error_Body e), console_error (Sync_Error e) w2)
                | (None, w2, syncedCount) \<Rightarrow>
                    (Json 200 (Sync_Body ''Sync complete'' syncedCount), w2))))"
  unfolding sync_000_def missing_configuration_def Let_def upstream_def fetched_def
    botToken_of_def chatId_of_def fetch_blogger_simps
  by (simp only: if_False)


lemma fetched_simps [simp]:
  "trace (fetched net body w) =
     trace w @ [Blogger_Call
             (bloggerUrl (template (resolve (BLOGGER_BLOG_ID body) w ''BLOGGER_BLOG_ID''))
                (template (resolve (BLOGGER_API_KEY body) w ''BLOGGER_API_KEY'')))
             (upstream net body w)]"
  "synced_posts (fetched net body w) = synced_posts w"
  "settings (fetched net body w) = settings w"
  "environ (fetched net body w) = environ w"
  by (simp_all add: fetched_def)

lemma new_events_append: "trace w' = trace w @ evs \<Longrightarrow> new_events w w' = evs"
  by (simp add: new_events_def)

lemma sync_001_shape:
  "\<exists>evs. trace (snd (sync_001 net body w)) = trace w @ evs \<and>
         synced_posts (snd (sync_001 net body w)) = synced_posts w @ inserted evs \<and>
         justified (feed evs) None evs"
proof (cases "missing_configuration body w")
  case True
  then show ?thesis by (simp add: sync_001_missing)
next
  case False
  note cfg = sync_001_configured [OF False, of net]
  show ?thesis
  proof (cases "upstream net body w")
    case (Throws e)
    then show ?thesis by (simp add: cfg)
  next
    case (Returns d)
    show ?thesis
    proof (cases "error d")
      case (Some err)
      with Returns show ?thesis by (simp add: cfg)
    next
      case None
      show ?thesis
      proof (cases "items d")
        case no: None
        with None Returns show ?thesis by (simp add: cfg)
      next
        case (Some its)
        obtain w2 k where loop:
          "sync_posts_001 net (botToken_of body w) (chatId_of body w) (take 3 its)
             (fetched net body w) 0 = (w2, k)"
          by (cases "sync_posts_001 net (botToken_of body w) (chatId_of body w) (take 3 its)
             (fetched net body w) 0")
        from sync_posts_001_shape [OF loop] obtain evs where evs:
          "trace w2 = trace (fetched net body w) @ evs"
          "synced_posts w2 = synced_posts (fetched net body w) @ inserted evs"
          "\<forall>prev. justified (take 3 its) prev evs"
          by blast
        have j: "justified its prev evs" for prev
          by (rule justified_mono [OF evs(3) [rule_format] set_take_subset])
        have res: "sync_001 net body w = (Json 200 (Sync_Body ''Sync complete'' k), w2)"
          using Some None Returns loop by (simp add: cfg)
        let ?b = "Blogger_Call
             (bloggerUrl (template (resolve (BLOGGER_BLOG_ID body) w ''BLOGGER_BLOG_ID''))
                (template (resolve (BLOGGER_API_KEY body) w ''BLOGGER_API_KEY'')))
             (Returns d)"
        have "trace w2 = trace w @ (?b # evs)" using evs(1) Returns by simp
        moreover have "synced_posts w2 = synced_posts w @ inserted (?b # evs)"
          using evs(2) by simp
        moreover have "justified (feed (?b # evs)) None (?b # evs)"
          using j Some by simp
        ultimately show ?thesis unfolding res snd_conv by blast
      qed
    qed
  qed
qed


lemma sync_000_shape:
  "\<exists>evs. trace (snd (sync_000 net body w)) = trace w @ evs \<and>
         synced_posts (snd (sync_000 net body w)) = synced_posts w @ inserted evs \<and>
         justified (feed evs) None evs"
proof (cases "missing_configuration body w")
  case True
  then show ?thesis by (simp add: sync_000_missing)
next
  case False
  note cfg = sync_000_configured [OF False, of net]
  show ?thesis
  proof (cases "upstream net body w")
    case (Throws e)
    then show ?thesis by (simp add: cfg)
  next
    case (Returns d)
    show ?thesis
    proof (cases "items d")
      case None
      with Returns show ?thesis by (simp add: cfg)
    next
      case (Some its)
      obtain thr w2 k where loop:
        "sync_posts_000 net (botToken_of body w) (chatId_of body w) its
           (fetched net body w) 0 = (thr, w2, k)"
        by (cases "sync_posts_000 net (botToken_of body w) (chatId_of body w) its
           (fetched net body w) 0")
      from sync_posts_000_shape [OF loop] obtain evs where evs:
        "trace w2 = trace (fetched net body w) @ evs"
        "synced_posts w2 = synced_posts (fetched net body w) @ inserted evs"
        "\<forall>prev. justified its prev evs"
        by blast
      let ?b = "Blogger_Call
           (bloggerUrl (template (resolve (BLOGGER_BLOG_ID body) w ''BLOGGER_BLOG_ID''))
              (template (resolve (BLOGGER_API_KEY body) w ''BLOGGER_API_KEY'')))
           (Returns d)"
      have t2: "trace w2 = trace w @ (?b # evs)" using evs(1) Returns by simp
      have s2: "synced_posts w2 = synced_posts w @ inserted (?b # evs)" using evs(2) by simp
      have j2: "justified (feed (?b # evs)) None (?b # evs)" using evs(3) Some by simp
      show ?thesis
      proof (cases thr)
        case None
        have res: "sync_000 net body w = (Json 200 (Sync_Body ''Sync complete'' k), w2)"
          using None Some Returns loop by (simp add: cfg)
        show ?thesis unfolding res snd_conv using t2 s2 j2 by blast
      next
        case thrown: (Some e)
        have res: "sync_000 net body w =
            (Json 500 (Error_Body e), console_error (Sync_Error e) w2)"
          using thrown Some Returns loop by (simp add: cfg)
        let ?evs = "(?b # evs) @ [Console_Error (Sync_Error e)]"
        have "trace (console_error (Sync_Error e) w2) = trace w @ ?evs" using t2 by simp
        moreover have "synced_posts (console_error (Sync_Error e) w2) =
            synced_posts w @ inserted ?evs" using s2 by simp
        moreover have "justified (feed ?evs) None ?evs"
          using evs(3) Some by (simp add: justified_append)
        ultimately show ?thesis unfolding res snd_conv by blast
      qed
    qed
  qed
qed

text \<open>
  Claim C1. In every cycle of either handler the trace only grows, the ledger grows by
  exactly the ids of the inserts of the cycle, and every insert of an id comes immediately
  after a Telegram call that returned a success response and carried the message of a
  fetched post with that id. Hence an id whose delivery did not succeed is not written
  and stays a candidate.
\<close>

theorem ledger_written_only_after_successful_delivery:
  "trace (snd (sync_001 net body w)) = trace w @ new_events w (snd (sync_001 net body w)) \<and>
   synced_posts (snd (sync_001 net body w)) =
     synced_posts w @ inserted (new_events w (snd (sync_001 net body w))) \<and>
   justified (feed (new_events w (snd (sync_001 net body w)))) None
     (new_events w (snd (sync_001 net body w))) \<and>
   trace (snd (sync_000 net body w)) = trace w @ new_events w (snd (sync_000 net body w)) \<and>
   synced_posts (snd (sync_000 net body w)) =
     synced_posts w @ inserted (new_events w (snd (sync_000 net body w))) \<and>
   justified (feed (new_events w (snd (sync_000 net body w)))) None
     (new_events w (snd (sync_000 net body w)))"
proof -
  obtain e1 where e1: "trace (snd (sync_001 net body w)) = trace w @ e1"
    "synced_posts (snd (sync_001 net body w)) = synced_posts w @ inserted e1"
    "justified (feed e1) None e1"
    using sync_001_shape by blast
  obtain e0 where e0: "trace (snd (sync_000 net body w)) = trace w @ e0"
    "synced_posts (snd (sync_000 net body w)) = synced_posts w @ inserted e0"
    "justified (feed e0) None e0"
    using sync_000_shape by blast
  have n1: "new_events w (snd (sync_001 net body w)) = e1" using e1(1) by (rule new_events_append)
  have n0: "new_events w (snd (sync_000 net body w)) = e0" using e0(1) by (rule new_events_append)
  show ?thesis unfolding n1 n0 using e1 e0 by simp
qed

subsection \<open>Posts already in the ledger\<close>

lemma try_post_001_synced:
  "post_id p \<in> set (synced_posts w) \<Longrightarrow> try_post_001 net t c p w n = (None, w, n)"
  by (simp add: try_post_001_def)

lemma sync_post_001_synced:
  "post_id p \<in> set (synced_posts w) \<Longrightarrow> sync_post_001 net t c p w n = (w, n)"
  by (simp add: sync_post_001_def try_post_001_synced)

lemma sync_post_000_synced:
  "post_id p \<in> set (synced_posts w) \<Longrightarrow> sync_post_000 net t c p w n = (None, w, n)"
  by (simp add: sync_post_000_def)

lemma sync_post_001_ledger_grows:
  "sync_post_001 net t c p w n = (w', n') \<Longrightarrow> set (synced_posts w) \<subseteq> set (synced_posts w')"
  using sync_post_001_shape [of net t c p w n w' n'] by auto

lemma sync_post_000_ledger_grows:
  "sync_post_000 net t c p w n = (thr, w', n') \<Longrightarrow> set (synced_posts w) \<subseteq> set (synced_posts w')"
  using sync_post_000_shape [of net t c p w n thr w' n'] by auto

lemma sync_posts_001_skips:
  "S \<subseteq> set (synced_posts w) \<Longrightarrow>
   sync_posts_001 net t c ps w n =
     sync_posts_001 net t c (filter (\<lambda>p. post_id p \<notin> S) ps) w n"
proof (induction ps arbitrary: w n)
  case Nil
  show ?case by simp
next
  case (Cons p ps)
  show ?case
  proof (cases "post_id p \<in> S")
    case True
    with Cons.prems have "post_id p \<in> set (synced_posts w)" by blast
    then show ?thesis using True Cons.IH [OF Cons.prems] by (simp add: sync_post_001_synced)
  next
    case False
    obtain w1 n1 where step: "sync_post_001 net t c p w n = (w1, n1)"
      by (cases "sync_post_001 net t c p w n")
    have "S \<subseteq> set (synced_posts w1)"
      using sync_post_001_ledger_grows [OF step] Cons.prems by blast
    from Cons.IH [OF this] show ?thesis using False step by simp
  qed
qed

lemma sync_posts_000_skips:
  "S \<subseteq> set (synced_posts w) \<Longrightarrow>
   sync_posts_000 net t c ps w n =
     sync_posts_000 net t c (filter (\<lambda>p. post_id p \<notin> S) ps) w n"
proof (induction ps arbitrary: w n)
  case Nil
  show ?case by simp
next
  case (Cons p ps)
  show ?case
  proof (cases "post_id p \<in> S")
    case True
    with Cons.prems have "post_id p \<in> set (synced_posts w)" by blast
    then show ?thesis using True Cons.IH [OF Cons.prems] by (simp add: sync_post_000_synced)
  next
    case False
    obtain t1 w1 n1 where step: "sync_post_000 net t c p w n = (t1, w1, n1)"
      by (cases "sync_post_000 net t c p w n")
    have "S \<subseteq> set (synced_posts w1)"
      using sync_post_000_ledger_grows [OF step] Cons.prems by blast
    from Cons.IH [OF this] show ?thesis using False step by (cases t1) simp_all
  qed
qed

lemma filter_all_synced:
  "\<forall>p\<in>set ps. post_id p \<in> set (synced_posts w) \<Longrightarrow>
   filter (\<lambda>p. post_id p \<notin> set (synced_posts w)) ps = []"
  by (induction ps) simp_all

lemma sync_posts_001_warm:
  assumes "\<forall>p\<in>set ps. post_id p \<in> set (synced_posts w)"
  shows "sync_posts_001 net t c ps w n = (w, n)"
  using sync_posts_001_skips [of "set (synced_posts w)" w net t c ps n]
    filter_all_synced [OF assms] by simp

lemma sync_posts_000_warm:
  assumes "\<forall>p\<in>set ps. post_id p \<in> set (synced_posts w)"
  shows "sync_posts_000 net t c ps w n = (None, w, n)"
  using sync_posts_000_skips [of "set (synced_posts w)" w net t c ps n]
    filter_all_synced [OF assms] by simp

subsection \<open>Configuration\<close>

lemma truthy_simps [simp]:
  "truthy None = False"
  "truthy (Some s) = (s \<noteq> [])"
  by (simp_all add: truthy_def)

lemma js_or_simps [simp]:
  "js_or None b = b"
  "js_or (Some []) b = b"
  "s \<noteq> [] \<Longrightarrow> js_or (Some s) b = Some s"
  by (simp_all add: js_or_def)

lemma resolve_chain:
  "resolve override w key =
     (if truthy override then override
      else if truthy (settings w key) then settings w key
      else environ w key)"
  by (simp add: resolve_def getSetting_def js_or_def)

lemma sync_001_override_cong:
  assumes "resolve (BLOGGER_API_KEY b1) w ''BLOGGER_API_KEY'' = resolve (BLOGGER_API_KEY b2) w ''BLOGGER_API_KEY''"
    and "resolve (BLOGGER_BLOG_ID b1) w ''BLOGGER_BLOG_ID'' = resolve (BLOGGER_BLOG_ID b2) w ''BLOGGER_BLOG_ID''"
    and "resolve (TELEGRAM_BOT_TOKEN b1) w ''TELEGRAM_BOT_TOKEN'' = resolve (TELEGRAM_BOT_TOKEN b2) w ''TELEGRAM_BOT_TOKEN''"
    and "resolve (TELEGRAM_CHANNEL_ID b1) w ''TELEGRAM_CHANNEL_ID'' = resolve (TELEGRAM_CHANNEL_ID b2) w ''TELEGRAM_CHANNEL_ID''"
  shows "sync_001 net b1 w = sync_001 net b2 w" and "sync_000 net b1 w = sync_000 net b2 w"
  unfolding sync_001_def sync_000_def assms by (rule refl)+

text \<open>
  Claim C9. An override or a stored setting that is the empty string counts as absent:
  resolution gives the first non-empty value among the override, the stored setting and
  the process environment (else whatever the environment holds), and a handler given an
  empty override behaves as the handler given none.
\<close>

theorem empty_string_falls_through:
  "resolve (Some []) w key = resolve None w key \<and>
   resolve None w key = getSetting w key \<and>
   getSetting (setSetting key [] w) key = environ w key \<and>
   getSetting (w\<lparr>settings := (settings w)(key := None)\<rparr>) key = environ w key \<and>
   resolve override w key =
     (if truthy override then override
      else if truthy (settings w key) then settings w key
      else environ w key) \<and>
   sync_001 net (body\<lparr>BLOGGER_API_KEY := Some []\<rparr>) w = sync_001 net (body\<lparr>BLOGGER_API_KEY := None\<rparr>) w \<and>
   sync_001 net (body\<lparr>BLOGGER_BLOG_ID := Some []\<rparr>) w = sync_001 net (body\<lparr>BLOGGER_BLOG_ID := None\<rparr>) w \<and>
   sync_001 net (body\<lparr>TELEGRAM_BOT_TOKEN := Some []\<rparr>) w = sync_001 net (body\<lparr>TELEGRAM_BOT_TOKEN := None\<rparr>) w \<and>
   sync_001 net (body\<lparr>TELEGRAM_CHANNEL_ID := Some []\<rparr>) w = sync_001 net (body\<lparr>TELEGRAM_CHANNEL_ID := None\<rparr>) w \<and>
   sync_000 net (body\<lparr>BLOGGER_API_KEY := Some []\<rparr>) w = sync_000 net (body\<lparr>BLOGGER_API_KEY := None\<rparr>) w \<and>
   sync_000 net (body\<lparr>BLOGGER_BLOG_ID := Some []\<rparr>) w = sync_000 net (body\<lparr>BLOGGER_BLOG_ID := None\<rparr>) w \<and>
   sync_000 net (body\<lparr>TELEGRAM_BOT_TOKEN := Some []\<rparr>) w = sync_000 net (body\<lparr>TELEGRAM_BOT_TOKEN := None\<rparr>) w \<and>
   sync_000 net (body\<lparr>TELEGRAM_CHANNEL_ID := Some []\<rparr>) w = sync_000 net (body\<lparr>TELEGRAM_CHANNEL_ID := None\<rparr>) w"
proof -
  have r: "resolve (Some []) w k = resolve None w k" for k
    by (simp add: resolve_def)
  have "resolve None w key = getSetting w key" by (simp add: resolve_def)
  moreover have "getSetting (setSetting key [] w) key = environ w key"
    by (simp add: getSetting_def setSetting_def)
  moreover have "getSetting (w\<lparr>settings := (settings w)(key := None)\<rparr>) key = environ w key"
    by (simp add: getSetting_def)
  moreover note resolve_chain [of override w key] r [of key]
  moreover have "sync_001 net (body\<lparr>BLOGGER_API_KEY := Some []\<rparr>) w = sync_001 net (body\<lparr>BLOGGER_API_KEY := None\<rparr>) w"
    "sync_000 net (body\<lparr>BLOGGER_API_KEY := Some []\<rparr>) w = sync_000 net (body\<lparr>BLOGGER_API_KEY := None\<rparr>) w"
    by (rule sync_001_override_cong; simp add: r)+
  moreover have "sync_001 net (body\<lparr>BLOGGER_BLOG_ID := Some []\<rparr>) w = sync_001 net (body\<lparr>BLOGGER_BLOG_ID := None\<rparr>) w"
    "sync_000 net (body\<lparr>BLOGGER_BLOG_ID := Some []\<rparr>) w = sync_000 net (body\<lparr>BLOGGER_BLOG_ID := None\<rparr>) w"
    by (rule sync_001_override_cong; simp add: r)+
  moreover have "sync_001 net (body\<lparr>TELEGRAM_BOT_TOKEN := Some []\<rparr>) w = sync_001 net (body\<lparr>TELEGRAM_BOT_TOKEN := None\<rparr>) w"
    "sync_000 net (body\<lparr>TELEGRAM_BOT_TOKEN := Some []\<rparr>) w = sync_000 net (body\<lparr>TELEGRAM_BOT_TOKEN := None\<rparr>) w"
    by (rule sync_001_override_cong; simp add: r)+
  moreover have "sync_001 net (body\<lparr>TELEGRAM_CHANNEL_ID := Some []\<rparr>) w = sync_001 net (body\<lparr>TELEGRAM_CHANNEL_ID := None\<rparr>) w"
    "sync_000 net (body\<lparr>TELEGRAM_CHANNEL_ID := Some []\<rparr>) w = sync_000 net (body\<lparr>TELEGRAM_CHANNEL_ID := None\<rparr>) w"
    by (rule sync_001_override_cong; simp add: r)+
  ultimately show ?thesis by simp
qed

subsection \<open>Missing configuration\<close>

text \<open>
  Claim C6. When one of the four values resolves to nothing (absent or empty) through
  override, stored setting and environment, both handlers answer 400 with a
  configuration error and make no network call: part_001 writes one line to the error
  console, part_000 leaves the state as it was.
\<close>

theorem missing_configuration_makes_no_network_call:
  assumes "\<not> truthy (resolve (BLOGGER_API_KEY body) w ''BLOGGER_API_KEY'')
      \<or> \<not> truthy (resolve (BLOGGER_BLOG_ID body) w ''BLOGGER_BLOG_ID'')
      \<or> \<not> truthy (resolve (TELEGRAM_BOT_TOKEN body) w ''TELEGRAM_BOT_TOKEN'')
      \<or> \<not> truthy (resolve (TELEGRAM_CHANNEL_ID body) w ''TELEGRAM_CHANNEL_ID'')"
  shows "fst (sync_001 net body w) =
           Json 400 (Error_Body ''Missing configuration. Please check your settings.'') \<and>
         filter is_network_call (new_events w (snd (sync_001 net body w))) = [] \<and>
         synced_posts (snd (sync_001 net body w)) = synced_posts w \<and>
         sync_000 net body w = (Json 400 (Error_Body ''Missing configuration''), w) \<and>
         new_events w (snd (sync_000 net body w)) = []"
proof -
  have m: "missing_configuration body w"
    using assms unfolding missing_configuration_def .
  show ?thesis
    by (simp add: sync_001_missing [OF m] sync_000_missing [OF m] new_events_def)
qed

subsection \<open>A post with neither images nor content\<close>

lemma resolve_image_no_body:
  "images p = None \<Longrightarrow> content p = None \<Longrightarrow> resolve_image p = Throws match_of_undefined"
  by (simp add: resolve_image_def first_image_url_def)

text \<open>
  Claim C10. Processing a post that is not in the ledger and has neither an image list
  nor a content raises the TypeError of \<open>undefined.match\<close> while the image is resolved:
  before any Telegram call, and with no ledger write and no count. In part_001 the
  error is caught and written to the error console; in part_000 it leaves the loop.
\<close>

theorem post_without_images_and_content_raises:
  assumes "images p = None" and "content p = None"
    and "post_id p \<notin> set (synced_posts w)"
  shows "try_post_001 net t c p w n = (Some match_of_undefined, w, n) \<and>
         sync_post_001 net t c p w n =
           (console_error (Error_Processing_Post (post_id p) match_of_undefined) w, n) \<and>
         sync_post_000 net t c p w n = (Some match_of_undefined, w, n)"
  using assms
  by (simp add: try_post_001_def sync_post_001_def sync_post_000_def resolve_image_no_body)

subsection \<open>Degrading a photo to a text message\<close>

lemma try_post_001_photo_refused:
  assumes "post_id p \<notin> set (synced_posts w)"
    and "resolve_image p = Returns (Some img)" and "img \<noteq> []"
    and "full = extractMovieDetails_001 p @ download_line @ template (url p)"
    and "photoUrl = ''https://api.telegram.org/bot'' @ t @ ''/sendPhoto''"
    and "textUrl = ''https://api.telegram.org/bot'' @ t @ ''/sendMessage''"
    and "telegram_api net (trace w) photoUrl (Send_Photo c img full) = Returns r1"
    and "\<not> ok r1" and "json r1 = Returns telError"
    and "w2 = console_error (Telegram_Send_Failed telError)
                (emit (Telegram_Call photoUrl (Send_Photo c img full) (Returns r1)) w)"
    and "a2 = telegram_api net (trace w2) textUrl (Send_Message c full)"
    and "w3 = emit (Telegram_Call textUrl (Send_Message c full) a2) w2"
  shows "try_post_001 net t c p w n =
           (case a2 of
              Throws e \<Rightarrow> (Some e, w3, n)
            | Returns r2 \<Rightarrow>
                if ok r2
                then (None, emit (Db_Insert (post_id p))
                              (w3\<lparr>synced_posts := synced_posts w @ [post_id p]\<rparr>), Suc n)
                else (None, w3, n))"
  using assms(1-3,7-9)
  unfolding try_post_001_def assms(4,5,6,10,11,12) insert_synced_post_def Let_def
  by (simp add: template_def split: outcome.splits)


text \<open>
  The retry of the part_001 handler. When the photo attempt for a post returns a
  non-success response whose error body can be read, the handler logs the failure and
  makes exactly one more call: a text message carrying the full composed message. If
  that call returns a success response the id is inserted once and counted once;
  otherwise nothing is inserted or counted and no further call is made.
\<close>

lemma refused_photo_is_retried_once_as_text:
  assumes "post_id p \<notin> set (synced_posts w)"
    and "resolve_image p = Returns (Some img)" and "img \<noteq> []"
    and "full = extractMovieDetails_001 p @ download_line @ template (url p)"
    and "photoUrl = ''https://api.telegram.org/bot'' @ t @ ''/sendPhoto''"
    and "textUrl = ''https://api.telegram.org/bot'' @ t @ ''/sendMessage''"
    and "telegram_api net (trace w) photoUrl (Send_Photo c img full) = Returns r1"
    and "\<not> ok r1" and "json r1 = Returns telError"
    and "w2 = console_error (Telegram_Send_Failed telError)
                (emit (Telegram_Call photoUrl (Send_Photo c img full) (Returns r1)) w)"
    and "a2 = telegram_api net (trace w2) textUrl (Send_Message c full)"
  shows "filter is_telegram_call (new_events w (fst (sync_post_001 net t c p w n))) =
           [Telegram_Call photoUrl (Send_Photo c img full) (Returns r1),
            Telegram_Call textUrl (Send_Message c full) a2] \<and>
         inserted (new_events w (fst (sync_post_001 net t c p w n))) =
           (if succeeded a2 then [post_id p] else []) \<and>
         synced_posts (fst (sync_post_001 net t c p w n)) =
           synced_posts w @ (if succeeded a2 then [post_id p] else []) \<and>
         snd (sync_post_001 net t c p w n) = (if succeeded a2 then Suc n else n)"
proof -
  define w3 where "w3 = emit (Telegram_Call textUrl (Send_Message c full) a2) w2"
  note step = try_post_001_photo_refused [OF assms w3_def, of n]
  have t3: "trace w3 = trace w @ [Telegram_Call photoUrl (Send_Photo c img full) (Returns r1),
      Console_Error (Telegram_Send_Failed telError),
      Telegram_Call textUrl (Send_Message c full) a2]"
    and s3: "synced_posts w3 = synced_posts w"
    unfolding w3_def assms(10) by simp_all
  show ?thesis
  proof (cases a2)
    case (Throws e)
    then have "sync_post_001 net t c p w n =
        (console_error (Error_Processing_Post (post_id p) e) w3, n)"
      by (simp add: sync_post_001_def step)
    then show ?thesis using Throws t3 s3 by (simp add: new_events_def)
  next
    case (Returns r2)
    show ?thesis
    proof (cases "ok r2")
      case True
      then have "sync_post_001 net t c p w n =
          (emit (Db_Insert (post_id p)) (w3\<lparr>synced_posts := synced_posts w @ [post_id p]\<rparr>), Suc n)"
        using Returns by (simp add: sync_post_001_def step)
      then show ?thesis using Returns True t3 by (simp add: new_events_def)
    next
      case False
      then have "sync_post_001 net t c p w n = (w3, n)"
        using Returns by (simp add: sync_post_001_def step)
      then show ?thesis using Returns False t3 s3 by (simp add: new_events_def)
    qed
  qed
qed

subsection \<open>sendToTelegram\<close>

lemma sendToTelegram_text_only:
  assumes "getSetting w ''TELEGRAM_BOT_TOKEN'' = Some tok" and "tok \<noteq> []"
    and "getSetting w ''TELEGRAM_CHANNEL_ID'' = Some chat" and "chat \<noteq> []"
    and "textUrl = ''https://api.telegram.org/bot'' @ tok @ ''/sendMessage''"
    and "a = telegram_api net (trace w) textUrl (Send_Message chat (m @ download_line @ u))"
    and "w1 = emit (Telegram_Call textUrl (Send_Message chat (m @ download_line @ u)) a) w"
  shows "sendToTelegram net m u None w =
           (case a of
              Throws e \<Rightarrow> (Throws e, w1)
            | Returns r \<Rightarrow>
                if ok r then (Returns (), w1)
                else (case json r of
                        Throws e \<Rightarrow> (Throws e, w1)
                      | Returns errorData \<Rightarrow>
                          (Throws (''Telegram failed: '' @ errorData),
                           console_error (Telegram_API_Error errorData) w1)))"
  using assms(1-4) unfolding assms(5,6,7)
  by (subst sendToTelegram.simps) (simp add: Let_def template_def split: outcome.splits)

lemma sendToTelegram_retries_once:
  assumes "getSetting w ''TELEGRAM_BOT_TOKEN'' = Some tok" and "tok \<noteq> []"
    and "getSetting w ''TELEGRAM_CHANNEL_ID'' = Some chat" and "chat \<noteq> []"
    and "img \<noteq> []"
    and "photoUrl = ''https://api.telegram.org/bot'' @ tok @ ''/sendPhoto''"
    and "textUrl = ''https://api.telegram.org/bot'' @ tok @ ''/sendMessage''"
    and "telegram_api net (trace w) photoUrl (Send_Photo chat img (m @ download_line @ u)) = Returns r1"
    and "\<not> ok r1" and "json r1 = Returns errorData"
    and "w2 = console_error (Telegram_API_Error errorData)
                (emit (Telegram_Call photoUrl (Send_Photo chat img (m @ download_line @ u)) (Returns r1)) w)"
    and "a2 = telegram_api net (trace w2) textUrl (Send_Message chat (m @ download_line @ u))"
    and "w3 = emit (Telegram_Call textUrl (Send_Message chat (m @ download_line @ u)) a2) w2"
  shows "sendToTelegram net m u (Some img) w =
           (case a2 of
              Throws e \<Rightarrow> (Throws e, w3)
            | Returns r2 \<Rightarrow>
                if ok r2 then (Returns (), w3)
                else (case json r2 of
                        Throws e \<Rightarrow> (Throws e, w3)
                      | Returns errorData2 \<Rightarrow>
                          (Throws (''Telegram failed: '' @ errorData2),
                           console_error (Telegram_API_Error errorData2) w3)))"
proof -
  have g: "getSetting w2 ''TELEGRAM_BOT_TOKEN'' = Some tok"
    "getSetting w2 ''TELEGRAM_CHANNEL_ID'' = Some chat"
    using assms(1,3) unfolding assms(11) getSetting_def by simp_all
  have first: "sendToTelegram net m u (Some img) w = sendToTelegram net m u None w2"
    using assms(1-5,8-10) unfolding assms(6,7,11)
    by (subst sendToTelegram.simps) (simp add: Let_def template_def)
  show ?thesis
    unfolding first
    by (rule sendToTelegram_text_only [OF g(1) assms(2) g(2) assms(4) assms(7) assms(12) assms(13)])
qed

subsection \<open>What a cycle of part_001 answers\<close>

lemma sync_001_completes:
  assumes "\<not> missing_configuration body w"
    and "upstream net body w = Returns d" and "error d = None"
  shows "fst (sync_001 net body w) =
           Json 200 (Sync_Body (if items d = None then ''No posts found'' else ''Sync complete'')
             (length (inserted (new_events w (snd (sync_001 net body w))))))"
proof (cases "items d")
  case None
  then show ?thesis
    using assms(2,3) by (simp add: sync_001_configured [OF assms(1)] new_events_def)
next
  case (Some its)
  obtain w2 k where loop:
    "sync_posts_001 net (botToken_of body w) (chatId_of body w) (take 3 its)
       (fetched net body w) 0 = (w2, k)"
    by (cases "sync_posts_001 net (botToken_of body w) (chatId_of body w) (take 3 its)
       (fetched net body w) 0")
  from sync_posts_001_shape [OF loop] obtain evs where evs:
    "trace w2 = trace (fetched net body w) @ evs" "k = 0 + length (inserted evs)"
    by blast
  have res: "sync_001 net body w = (Json 200 (Sync_Body ''Sync complete'' k), w2)"
    using Some assms(2,3) loop by (simp add: sync_001_configured [OF assms(1)])
  have "new_events w w2 = Blogger_Call
         (bloggerUrl (template (resolve (BLOGGER_BLOG_ID body) w ''BLOGGER_BLOG_ID''))
            (template (resolve (BLOGGER_API_KEY body) w ''BLOGGER_API_KEY'')))
         (upstream net body w) # evs"
    using evs(1) by (simp add: new_events_def)
  then show ?thesis unfolding res using Some evs(2) by simp
qed

lemma try_post_001_failure_is_logged:
  assumes "try_post_001 net t c p w n = (thr, w', n')"
    and "post_id p \<notin> set (synced_posts w)"
  shows "post_id p \<in> set (synced_posts w') \<or> thr \<noteq> None \<or>
         filter is_console_error (new_events w w') \<noteq> []"
  using assms
  unfolding try_post_001_def insert_synced_post_def Let_def new_events_def
  by (auto split: if_splits outcome.splits)

lemma sync_post_001_failure_is_logged:
  assumes "sync_post_001 net t c p w n = (w', n')"
    and "post_id p \<notin> set (synced_posts w)"
    and "post_id p \<notin> set (synced_posts w')"
  shows "filter is_console_error (new_events w w') \<noteq> []"
proof (cases "try_post_001 net t c p w n")
  case (fields thr w1 n1)
  from try_post_001_shape [OF fields] obtain evs where evs:
    "trace w1 = trace w @ evs" "synced_posts w1 = synced_posts w @ inserted evs"
    by blast
  show ?thesis
  proof (cases thr)
    case None
    with fields assms(1) have "w' = w1" by (simp add: sync_post_001_def)
    with try_post_001_failure_is_logged [OF fields assms(2)] None assms(3)
    show ?thesis by simp
  next
    case (Some e)
    with fields assms(1) have "w' = console_error (Error_Processing_Post (post_id p) e) w1"
      by (simp add: sync_post_001_def)
    then show ?thesis using evs(1) by (simp add: new_events_def)
  qed
qed

lemma new_events_trans:
  assumes "trace w1 = trace w @ e1" and "trace w2 = trace w1 @ e2"
  shows "new_events w w2 = new_events w w1 @ new_events w1 w2"
  using assms by (simp add: new_events_def)

lemma sync_posts_001_failure_is_logged:
  "sync_posts_001 net t c ps w n = (w', n') \<Longrightarrow> p \<in> set ps \<Longrightarrow>
   post_id p \<notin> set (synced_posts w') \<Longrightarrow>
   filter is_console_error (new_events w w') \<noteq> []"
proof (induction ps arbitrary: w n)
  case Nil
  then show ?case by simp
next
  case (Cons q qs)
  obtain w1 n1 where step: "sync_post_001 net t c q w n = (w1, n1)"
    by (cases "sync_post_001 net t c q w n")
  with Cons.prems(1) have rest: "sync_posts_001 net t c qs w1 n1 = (w', n')" by simp
  from sync_post_001_shape [OF step] obtain e1 where e1:
    "trace w1 = trace w @ e1" "synced_posts w1 = synced_posts w @ inserted e1" by blast
  from sync_posts_001_shape [OF rest] obtain e2 where e2:
    "trace w' = trace w1 @ e2" "synced_posts w' = synced_posts w1 @ inserted e2" by blast
  note split = new_events_trans [OF e1(1) e2(1)]
  show ?case
  proof (cases "p \<in> set qs")
    case True
    from Cons.IH [OF rest True Cons.prems(3)] show ?thesis by (simp add: split)
  next
    case False
    with Cons.prems(2) have "p = q" by simp
    have "post_id q \<notin> set (synced_posts w1)" "post_id q \<notin> set (synced_posts w)"
      using Cons.prems(3) e1(2) e2(2) \<open>p = q\<close> by simp_all
    from sync_post_001_failure_is_logged [OF step this(2) this(1)]
    show ?thesis by (simp add: split)
  qed
qed

lemma sync_001_response:
  "fst (sync_001 net body w) =
     (if missing_configuration body w
      then Json 400 (Error_Body ''Missing configuration. Please check your settings.'')
      else (case upstream net body w of
              Throws e \<Rightarrow> Json 500 (Error_Body (''Sync failed: '' @ e))
            | Returns d \<Rightarrow>
                (case error d of
                   Some err \<Rightarrow>
                     Json 400 (Error_Body (''Blogger API Error: ''
                       @ template (js_or (message err) (Some ''Unknown error''))))
                 | None \<Rightarrow>
                     Json 200
                       (Sync_Body (if items d = None then ''No posts found'' else ''Sync complete'')
                          (length (inserted (new_events w (snd (sync_001 net body w)))))))))"
proof (cases "missing_configuration body w")
  case True
  then show ?thesis by (simp add: sync_001_missing)
next
  case False
  show ?thesis
  proof (cases "upstream net body w")
    case (Throws e)
    then show ?thesis using False by (simp add: sync_001_configured)
  next
    case (Returns d)
    show ?thesis
    proof (cases "error d")
      case None
      then show ?thesis
        using sync_001_completes [OF False Returns None] False Returns by simp
    next
      case (Some err)
      then show ?thesis using False Returns by (simp add: sync_001_configured)
    qed
  qed
qed

lemma sync_001_failure_is_logged:
  assumes "\<not> missing_configuration body w"
    and "upstream net body w = Returns d" and "error d = None" and "items d = Some its"
    and "p \<in> set (take 3 its)"
    and "post_id p \<notin> set (synced_posts (snd (sync_001 net body w)))"
  shows "filter is_console_error (new_events w (snd (sync_001 net body w))) \<noteq> []"
proof -
  obtain w2 k where loop:
    "sync_posts_001 net (botToken_of body w) (chatId_of body w) (take 3 its)
       (fetched net body w) 0 = (w2, k)"
    by (cases "sync_posts_001 net (botToken_of body w) (chatId_of body w) (take 3 its)
       (fetched net body w) 0")
  have res: "sync_001 net body w = (Json 200 (Sync_Body ''Sync complete'' k), w2)"
    using assms(2-4) loop by (simp add: sync_001_configured [OF assms(1)])
  from sync_posts_001_shape [OF loop] obtain evs where evs:
    "trace w2 = trace (fetched net body w) @ evs" by blast
  have "filter is_console_error (new_events (fetched net body w) w2) \<noteq> []"
    using sync_posts_001_failure_is_logged [OF loop assms(5)] assms(6) unfolding res by simp
  moreover have "new_events w w2 = new_events w (fetched net body w) @ new_events (fetched net body w) w2"
    by (rule new_events_trans [OF _ evs]) simp
  ultimately show ?thesis unfolding res by simp
qed

lemma reported_append:
  "reported p prev (a @ b) =
     (reported p prev a \<or> reported p (if a = [] then prev else Some (last a)) b)"
  by (induction a arbitrary: prev) auto

lemma try_post_001_failure_is_reported:
  assumes "try_post_001 net t c p w n = (thr, w', n')"
    and "post_id p \<notin> set (synced_posts w)"
  shows "post_id p \<in> set (synced_posts w') \<or> thr \<noteq> None \<or>
         reported p prev (new_events w w')"
  using assms
  unfolding try_post_001_def insert_synced_post_def Let_def new_events_def
  by (auto simp: line_for_def message_001_def split: if_splits outcome.splits)

lemma sync_post_001_failure_is_reported:
  assumes "sync_post_001 net t c p w n = (w', n')"
    and "post_id p \<notin> set (synced_posts w')"
  shows "reported p prev (new_events w w')"
proof (cases "try_post_001 net t c p w n")
  case (fields thr w1 n1)
  from try_post_001_shape [OF fields] obtain evs where evs:
    "trace w1 = trace w @ evs" "synced_posts w1 = synced_posts w @ inserted evs"
    by blast
  have out: "post_id p \<notin> set (synced_posts w)"
    using sync_post_001_ledger_grows [OF assms(1)] assms(2) by blast
  show ?thesis
  proof (cases thr)
    case None
    with fields assms(1) have "w' = w1" by (simp add: sync_post_001_def)
    with try_post_001_failure_is_reported [OF fields out, of prev] None assms(2)
    show ?thesis by simp
  next
    case (Some e)
    with fields assms(1) have "w' = console_error (Error_Processing_Post (post_id p) e) w1"
      by (simp add: sync_post_001_def)
    then have "new_events w w' = evs @ [Console_Error (Error_Processing_Post (post_id p) e)]"
      using evs(1) by (simp add: new_events_def)
    then show ?thesis by (simp add: reported_append line_for_def)
  qed
qed

lemma sync_posts_001_failure_is_reported:
  "sync_posts_001 net t c ps w n = (w', n') \<Longrightarrow> p \<in> set ps \<Longrightarrow>
   post_id p \<notin> set (synced_posts w') \<Longrightarrow>
   reported p prev (new_events w w')"
proof (induction ps arbitrary: w n prev)
  case Nil
  then show ?case by simp
next
  case (Cons q qs)
  obtain w1 n1 where step: "sync_post_001 net t c q w n = (w1, n1)"
    by (cases "sync_post_001 net t c q w n")
  with Cons.prems(1) have rest: "sync_posts_001 net t c qs w1 n1 = (w', n')" by simp
  from sync_post_001_shape [OF step] obtain e1 where e1:
    "trace w1 = trace w @ e1" by blast
  from sync_posts_001_shape [OF rest] obtain e2 where e2:
    "trace w' = trace w1 @ e2" "synced_posts w' = synced_posts w1 @ inserted e2" by blast
  note split = new_events_trans [OF e1(1) e2(1)]
  show ?case
  proof (cases "p \<in> set qs")
    case True
    from Cons.IH [OF rest True Cons.prems(3)] show ?thesis
      by (simp add: split reported_append)
  next
    case False
    with Cons.prems(2) have "p = q" by simp
    have "post_id q \<notin> set (synced_posts w1)"
      using Cons.prems(3) e2(2) \<open>p = q\<close> by simp
    from sync_post_001_failure_is_reported [OF step this, of prev]
    show ?thesis using \<open>p = q\<close> by (simp add: split reported_append)
  qed
qed

lemma sync_001_failure_is_reported:
  assumes "\<not> missing_configuration body w"
    and "upstream net body w = Returns d" and "error d = None" and "items d = Some its"
    and "p \<in> set (take 3 its)"
    and "post_id p \<notin> set (synced_posts (snd (sync_001 net body w)))"
  shows "reported p None (new_events w (snd (sync_001 net body w)))"
proof -
  obtain w2 k where loop:
    "sync_posts_001 net (botToken_of body w) (chatId_of body w) (take 3 its)
       (fetched net body w) 0 = (w2, k)"
    by (cases "sync_posts_001 net (botToken_of body w) (chatId_of body w) (take 3 its)
       (fetched net body w) 0")
  have res: "sync_001 net body w = (Json 200 (Sync_Body ''Sync complete'' k), w2)"
    using assms(2-4) loop by (simp add: sync_001_configured [OF assms(1)])
  from sync_posts_001_shape [OF loop] obtain evs where evs:
    "trace w2 = trace (fetched net body w) @ evs" by blast
  have out: "post_id p \<notin> set (synced_posts w2)" using assms(6) unfolding res by simp
  have split: "new_events w w2 = new_events w (fetched net body w) @ new_events (fetched net body w) w2"
    by (rule new_events_trans [OF _ evs]) simp
  from sync_posts_001_failure_is_reported [OF loop assms(5) out]
  show ?thesis unfolding res snd_conv split by (simp add: reported_append line_for_def)
qed

text \<open>
  Claim C8, as amended. The part_001 handler answers with a status and either an error
  message or a message and a count, never with a list of per-post errors. The status is
  400 when a configuration value is missing or Blogger reports an error, 500 when the
  fetch throws, and 200 otherwise, whatever happens to the single posts; the count of a
  200 answer is the number of ledger inserts of the cycle. Every post among the first
  three that the cycle leaves out of the ledger has a line of its own on the error
  console instead: the line of the \<open>catch\<close>, which names the id of the post, or the line
  of the refusal, written right after the refused call that carried the message of the
  post.
\<close>

theorem sync_result_is_status_message_and_count:
  "fst (sync_001 net body w) =
     (if missing_configuration body w
      then Json 400 (Error_Body ''Missing configuration. Please check your settings.'')
      else (case upstream net body w of
              Throws e \<Rightarrow> Json 500 (Error_Body (''Sync failed: '' @ e))
            | Returns d \<Rightarrow>
                (case error d of
                   Some err \<Rightarrow>
                     Json 400 (Error_Body (''Blogger API Error: ''
                       @ template (js_or (message err) (Some ''Unknown error''))))
                 | None \<Rightarrow>
                     Json 200
                       (Sync_Body (if items d = None then ''No posts found'' else ''Sync complete'')
                          (length (inserted (new_events w (snd (sync_001 net body w))))))))) \<and>
   (\<not> missing_configuration body w \<and> upstream net body w = Returns d \<and> error d = None \<and>
    items d = Some its \<and> p \<in> set (take 3 its) \<and>
    post_id p \<notin> set (synced_posts (snd (sync_001 net body w))) \<longrightarrow>
    reported p None (new_events w (snd (sync_001 net body w))) \<and>
    filter is_console_error (new_events w (snd (sync_001 net body w))) \<noteq> [])"
  using sync_001_response [of net body w] sync_001_failure_is_logged [of body w net d its p]
    sync_001_failure_is_reported [of body w net d its p]
  by blast

subsection \<open>What part_001 does and part_000 does not\<close>

lemma sync_posts_001_append:
  "sync_posts_001 net t c (ps @ qs) w n =
     (case sync_posts_001 net t c ps w n of (w', n') \<Rightarrow> sync_posts_001 net t c qs w' n')"
  by (induction ps arbitrary: w n) (simp_all split: prod.splits)

lemma sync_post_001_thrown_is_caught:
  "try_post_001 net t c p w n = (Some e, w', n') \<Longrightarrow>
   sync_post_001 net t c p w n = (console_error (Error_Processing_Post (post_id p) e) w', n')"
  by (simp add: sync_post_001_def)

lemma justified_inserted:
  "justified ps prev evs \<Longrightarrow> set (inserted evs) \<subseteq> post_id ` set ps"
  by (induction ps prev evs rule: justified.induct) (auto simp: list_ex_iff split: option.splits)

lemma sync_001_first_three:
  assumes "\<not> missing_configuration body w"
    and "upstream net body w = Returns d" and "error d = None" and "items d = Some its"
  shows "set (inserted (new_events w (snd (sync_001 net body w)))) \<subseteq> post_id ` set (take 3 its)"
proof -
  obtain w2 k where loop:
    "sync_posts_001 net (botToken_of body w) (chatId_of body w) (take 3 its)
       (fetched net body w) 0 = (w2, k)"
    by (cases "sync_posts_001 net (botToken_of body w) (chatId_of body w) (take 3 its)
       (fetched net body w) 0")
  from sync_posts_001_shape [OF loop] obtain evs where evs:
    "trace w2 = trace (fetched net body w) @ evs"
    "\<forall>prev. justified (take 3 its) prev evs"
    by blast
  have res: "sync_001 net body w = (Json 200 (Sync_Body ''Sync complete'' k), w2)"
    using assms(2-4) loop by (simp add: sync_001_configured [OF assms(1)])
  have "new_events w w2 = Blogger_Call
         (bloggerUrl (template (resolve (BLOGGER_BLOG_ID body) w ''BLOGGER_BLOG_ID''))
            (template (resolve (BLOGGER_API_KEY body) w ''BLOGGER_API_KEY'')))
         (upstream net body w) # evs"
    using evs(1) by (simp add: new_events_def)
  then show ?thesis
    unfolding res using justified_inserted [OF evs(2) [rule_format, of None]] by simp
qed

lemma sync_001_upstream_error:
  assumes "\<not> missing_configuration body w"
    and "upstream net body w = Returns d" and "error d = Some err"
  shows "sync_001 net body w =
           (Json 400 (Error_Body (''Blogger API Error: ''
                        @ template (js_or (message err) (Some ''Unknown error'')))),
            console_error (Blogger_API_Error err) (fetched net body w))"
  using assms(2,3) by (simp add: sync_001_configured [OF assms(1)])

lemma sync_no_items:
  assumes "\<not> missing_configuration body w"
    and "upstream net body w = Returns d" and "error d = None" and "items d = None"
  shows "sync_001 net body w = (Json 200 (Sync_Body ''No posts found'' 0), fetched net body w)"
    and "sync_000 net body w = (Json 200 (Sync_Body ''No posts found'' 0), fetched net body w)"
  using assms(2-4)
  by (simp_all add: sync_001_configured [OF assms(1)] sync_000_configured [OF assms(1)])

subsection \<open>A cycle is the cycle over its candidates\<close>

lemma attempts_for_append [simp]:
  "attempts_for ps (a @ b) = (attempts_for ps a \<and> attempts_for ps b)"
  by (induction ps a rule: attempts_for.induct) auto

lemma attempts_for_mono:
  "attempts_for ps es \<Longrightarrow> set ps \<subseteq> set qs \<Longrightarrow> attempts_for qs es"
  by (induction ps es rule: attempts_for.induct) (auto simp: list_ex_iff)

lemma try_post_001_attempts:
  assumes "try_post_001 net t c p w n = (thr, w', n')"
  shows "attempts_for [p] (new_events w w')"
  using assms
  unfolding try_post_001_def insert_synced_post_def Let_def new_events_def
  by (auto split: if_splits outcome.splits simp: ends_with_def carries_def)

lemma sync_post_001_attempts:
  assumes "sync_post_001 net t c p w n = (w', n')"
  shows "attempts_for [p] (new_events w w')"
proof (cases "try_post_001 net t c p w n")
  case (fields thr w1 n1)
  from try_post_001_shape [OF fields] obtain evs where evs: "trace w1 = trace w @ evs" by blast
  have a: "attempts_for [p] evs"
    using try_post_001_attempts [OF fields] evs by (simp add: new_events_def)
  show ?thesis
  proof (cases thr)
    case None
    with fields assms have "w' = w1" by (simp add: sync_post_001_def)
    then show ?thesis using a evs by (simp add: new_events_def)
  next
    case (Some e)
    with fields assms have "w' = console_error (Error_Processing_Post (post_id p) e) w1"
      by (simp add: sync_post_001_def)
    then show ?thesis using a evs by (simp add: new_events_def)
  qed
qed

lemma sync_posts_001_attempts:
  "sync_posts_001 net t c ps w n = (w', n') \<Longrightarrow> attempts_for ps (new_events w w')"
proof (induction ps arbitrary: w n)
  case Nil
  then show ?case by (simp add: new_events_def)
next
  case (Cons p ps)
  obtain w1 n1 where step: "sync_post_001 net t c p w n = (w1, n1)"
    by (cases "sync_post_001 net t c p w n")
  with Cons.prems have rest: "sync_posts_001 net t c ps w1 n1 = (w', n')" by simp
  from sync_post_001_shape [OF step] obtain e1 where e1: "trace w1 = trace w @ e1" by blast
  from sync_posts_001_shape [OF rest] obtain e2 where e2: "trace w' = trace w1 @ e2" by blast
  have "attempts_for (p # ps) (new_events w w1)"
    by (rule attempts_for_mono [OF sync_post_001_attempts [OF step]]) simp
  moreover have "attempts_for (p # ps) (new_events w1 w')"
    by (rule attempts_for_mono [OF Cons.IH [OF rest]]) auto
  ultimately show ?case by (simp add: new_events_trans [OF e1 e2])
qed

lemma sync_post_000_attempts:
  assumes "sync_post_000 net t c p w n = (thr, w', n')"
  shows "attempts_for [p] (new_events w w')"
  using assms
  unfolding sync_post_000_def insert_synced_post_def extractMovieDetails_000_def Let_def new_events_def
  by (auto split: if_splits outcome.splits simp: ends_with_def carries_def)

lemma sync_posts_000_attempts:
  "sync_posts_000 net t c ps w n = (thr, w', n') \<Longrightarrow> attempts_for ps (new_events w w')"
proof (induction ps arbitrary: w n)
  case Nil
  then show ?case by (simp add: new_events_def)
next
  case (Cons p ps)
  obtain t1 w1 n1 where step: "sync_post_000 net t c p w n = (t1, w1, n1)"
    by (cases "sync_post_000 net t c p w n")
  from sync_post_000_shape [OF step] obtain e1 where e1: "trace w1 = trace w @ e1" by blast
  have a1: "attempts_for (p # ps) (new_events w w1)"
    by (rule attempts_for_mono [OF sync_post_000_attempts [OF step]]) simp
  show ?case
  proof (cases t1)
    case (Some e)
    with step Cons.prems have "w' = w1" by simp
    then show ?thesis using a1 by simp
  next
    case None
    with step Cons.prems have rest: "sync_posts_000 net t c ps w1 n1 = (thr, w', n')" by simp
    from sync_posts_000_shape [OF rest] obtain e2 where e2: "trace w' = trace w1 @ e2" by blast
    have "attempts_for (p # ps) (new_events w1 w')"
      by (rule attempts_for_mono [OF Cons.IH [OF rest]]) auto
    then show ?thesis using a1 by (simp add: new_events_trans [OF e1 e2])
  qed
qed


lemma candidates_subset: "set (candidates w ps) \<subseteq> set ps"
  by (auto simp: candidates_def)

lemma sync_001_candidates:
  assumes "\<not> missing_configuration body w"
    and "upstream net body w = Returns d" and "error d = None" and "items d = Some its"
  shows "sync_001 net body w =
           (case sync_posts_001 net (botToken_of body w) (chatId_of body w)
                   (candidates w (take 3 its)) (fetched net body w) 0 of
              (w2, syncedCount) \<Rightarrow> (Json 200 (Sync_Body ''Sync complete'' syncedCount), w2))"
proof -
  have "set (synced_posts w) \<subseteq> set (synced_posts (fetched net body w))" by simp
  from sync_posts_001_skips [OF this, of net "botToken_of body w" "chatId_of body w" "take 3 its" 0]
  show ?thesis
    using assms(2-4) by (simp add: sync_001_configured [OF assms(1)] candidates_def)
qed

lemma sync_000_candidates:
  assumes "\<not> missing_configuration body w"
    and "upstream net body w = Returns d" and "items d = Some its"
  shows "sync_000 net body w =
           (case sync_posts_000 net (botToken_of body w) (chatId_of body w)
                   (candidates w its) (fetched net body w) 0 of
              (Some e, w2, syncedCount) \<Rightarrow>
                (Json 500 (Error_Body e), console_error (Sync_Error e) w2)
            | (None, w2, syncedCount) \<Rightarrow>
                (Json 200 (Sync_Body ''Sync complete'' syncedCount), w2))"
proof -
  have "set (synced_posts w) \<subseteq> set (synced_posts (fetched net body w))" by simp
  from sync_posts_000_skips [OF this, of net "botToken_of body w" "chatId_of body w" its 0]
  show ?thesis
    using assms(2,3) by (simp add: sync_000_configured [OF assms(1)] candidates_def)
qed

lemma sync_001_attempts:
  assumes "\<not> missing_configuration body w"
    and "upstream net body w = Returns d" and "error d = None" and "items d = Some its"
  shows "attempts_for (candidates w (take 3 its)) (new_events w (snd (sync_001 net body w)))"
    and "set (inserted (new_events w (snd (sync_001 net body w))))
           \<subseteq> post_id ` set (candidates w (take 3 its))"
proof -
  let ?ps = "candidates w (take 3 its)"
  obtain w2 k where loop:
    "sync_posts_001 net (botToken_of body w) (chatId_of body w) ?ps (fetched net body w) 0 = (w2, k)"
    by (cases "sync_posts_001 net (botToken_of body w) (chatId_of body w) ?ps (fetched net body w) 0")
  have res: "sync_001 net body w = (Json 200 (Sync_Body ''Sync complete'' k), w2)"
    using loop by (simp add: sync_001_candidates [OF assms])
  from sync_posts_001_shape [OF loop] obtain evs where evs:
    "trace w2 = trace (fetched net body w) @ evs" "\<forall>prev. justified ?ps prev evs" by blast
  have split: "new_events w w2 = new_events w (fetched net body w) @ new_events (fetched net body w) w2"
    by (rule new_events_trans [OF _ evs(1)]) simp
  have first: "new_events w (fetched net body w) = [Blogger_Call
         (bloggerUrl (template (resolve (BLOGGER_BLOG_ID body) w ''BLOGGER_BLOG_ID''))
            (template (resolve (BLOGGER_API_KEY body) w ''BLOGGER_API_KEY'')))
         (upstream net body w)]"
    by (simp add: new_events_def)
  have rest: "new_events (fetched net body w) w2 = evs"
    by (rule new_events_append [OF evs(1)])
  show "attempts_for ?ps (new_events w (snd (sync_001 net body w)))"
    unfolding res snd_conv split first using sync_posts_001_attempts [OF loop] by simp
  show "set (inserted (new_events w (snd (sync_001 net body w)))) \<subseteq> post_id ` set ?ps"
    unfolding res snd_conv split first rest
    using justified_inserted [OF evs(2) [rule_format, of None]] by simp
qed

lemma sync_000_attempts:
  assumes "\<not> missing_configuration body w"
    and "upstream net body w = Returns d" and "items d = Some its"
  shows "attempts_for (candidates w its) (new_events w (snd (sync_000 net body w)))"
    and "set (inserted (new_events w (snd (sync_000 net body w))))
           \<subseteq> post_id ` set (candidates w its)"
proof -
  let ?ps = "candidates w its"
  obtain thr w2 k where loop:
    "sync_posts_000 net (botToken_of body w) (chatId_of body w) ?ps (fetched net body w) 0 = (thr, w2, k)"
    by (cases "sync_posts_000 net (botToken_of body w) (chatId_of body w) ?ps (fetched net body w) 0")
  from sync_posts_000_shape [OF loop] obtain evs where evs:
    "trace w2 = trace (fetched net body w) @ evs" "\<forall>prev. justified ?ps prev evs" by blast
  have first: "new_events w (fetched net body w) = [Blogger_Call
         (bloggerUrl (template (resolve (BLOGGER_BLOG_ID body) w ''BLOGGER_BLOG_ID''))
            (template (resolve (BLOGGER_API_KEY body) w ''BLOGGER_API_KEY'')))
         (upstream net body w)]"
    by (simp add: new_events_def)
  have rest: "new_events (fetched net body w) w2 = evs"
    by (rule new_events_append [OF evs(1)])
  have split: "new_events w w2 = new_events w (fetched net body w) @ new_events (fetched net body w) w2"
    by (rule new_events_trans [OF _ evs(1)]) simp
  have a: "attempts_for ?ps (new_events w w2)"
    unfolding split first using sync_posts_000_attempts [OF loop] by simp
  have i: "set (inserted (new_events w w2)) \<subseteq> post_id ` set ?ps"
    unfolding split first rest using justified_inserted [OF evs(2) [rule_format, of None]] by simp
  have "attempts_for ?ps (new_events w (snd (sync_000 net body w))) \<and>
    set (inserted (new_events w (snd (sync_000 net body w)))) \<subseteq> post_id ` set ?ps"
  proof (cases thr)
    case None
    then have res: "sync_000 net body w = (Json 200 (Sync_Body ''Sync complete'' k), w2)"
      using loop by (simp add: sync_000_candidates [OF assms])
    show ?thesis unfolding res snd_conv using a i by simp
  next
    case (Some e)
    then have res: "sync_000 net body w =
        (Json 500 (Error_Body e), console_error (Sync_Error e) w2)"
      using loop by (simp add: sync_000_candidates [OF assms])
    have n: "new_events w (console_error (Sync_Error e) w2) =
        new_events w w2 @ [Console_Error (Sync_Error e)]"
      using evs(1) by (simp add: new_events_def)
    show ?thesis unfolding res snd_conv n using a i by simp
  qed
  then show "attempts_for ?ps (new_events w (snd (sync_000 net body w)))"
    "set (inserted (new_events w (snd (sync_000 net body w)))) \<subseteq> post_id ` set ?ps"
    by simp_all
qed

text \<open>
  Claim C4. For any feed, a cycle of either handler is the cycle over the candidates
  alone, the fetched posts (the first three, in part_001) whose id is not in the ledger
  when the cycle starts: every call to Telegram of the cycle carries the message of a
  candidate, and only ids of candidates are inserted. A post whose id is in the ledger
  is therefore delivered zero times. When every fetched post is in the ledger, the cycle
  is the fetch alone: no call to Telegram, no insert, zero posts counted.
\<close>

theorem synced_posts_are_never_delivered_again:
  assumes "\<not> missing_configuration body w"
    and "upstream net body w = Returns d"
    and "error d = None"
    and "items d = Some its"
  shows "sync_001 net body w =
           (case sync_posts_001 net (botToken_of body w) (chatId_of body w)
                   (candidates w (take 3 its)) (fetched net body w) 0 of
              (w2, syncedCount) \<Rightarrow> (Json 200 (Sync_Body ''Sync complete'' syncedCount), w2)) \<and>
         sync_000 net body w =
           (case sync_posts_000 net (botToken_of body w) (chatId_of body w)
                   (candidates w its) (fetched net body w) 0 of
              (Some e, w2, syncedCount) \<Rightarrow>
                (Json 500 (Error_Body e), console_error (Sync_Error e) w2)
            | (None, w2, syncedCount) \<Rightarrow>
                (Json 200 (Sync_Body ''Sync complete'' syncedCount), w2)) \<and>
         attempts_for (candidates w (take 3 its)) (new_events w (snd (sync_001 net body w))) \<and>
         attempts_for (candidates w its) (new_events w (snd (sync_000 net body w))) \<and>
         set (inserted (new_events w (snd (sync_001 net body w))))
           \<subseteq> post_id ` set (candidates w (take 3 its)) \<and>
         set (inserted (new_events w (snd (sync_000 net body w))))
           \<subseteq> post_id ` set (candidates w its) \<and>
         sync_posts_001 net t c ps w n =
           sync_posts_001 net t c (filter (\<lambda>p. post_id p \<notin> set (synced_posts w)) ps) w n \<and>
         sync_posts_000 net t c ps w n =
           sync_posts_000 net t c (filter (\<lambda>p. post_id p \<notin> set (synced_posts w)) ps) w n \<and>
         ((\<forall>p\<in>set its. post_id p \<in> set (synced_posts w)) \<longrightarrow>
            sync_001 net body w = (Json 200 (Sync_Body ''Sync complete'' 0), fetched net body w) \<and>
            sync_000 net body w = (Json 200 (Sync_Body ''Sync complete'' 0), fetched net body w)) \<and>
         new_events w (fetched net body w) =
           [Blogger_Call
              (bloggerUrl (template (resolve (BLOGGER_BLOG_ID body) w ''BLOGGER_BLOG_ID''))
                 (template (resolve (BLOGGER_API_KEY body) w ''BLOGGER_API_KEY'')))
              (Returns d)] \<and>
         synced_posts (fetched net body w) = synced_posts w"
proof -
  have warm: "sync_001 net body w = (Json 200 (Sync_Body ''Sync complete'' 0), fetched net body w) \<and>
      sync_000 net body w = (Json 200 (Sync_Body ''Sync complete'' 0), fetched net body w)"
    if all: "\<forall>p\<in>set its. post_id p \<in> set (synced_posts w)"
  proof -
    have c: "candidates w its = []" "candidates w (take 3 its) = []"
      using all set_take_subset [of 3 its] by (auto simp: candidates_def filter_empty_conv)
    show ?thesis
      by (simp add: sync_001_candidates [OF assms] sync_000_candidates [OF assms(1,2,4)] c)
  qed
  have first: "new_events w (fetched net body w) =
           [Blogger_Call
              (bloggerUrl (template (resolve (BLOGGER_BLOG_ID body) w ''BLOGGER_BLOG_ID''))
                 (template (resolve (BLOGGER_API_KEY body) w ''BLOGGER_API_KEY'')))
              (Returns d)]"
    using assms(2) by (simp add: new_events_def)
  note sync_001_candidates [OF assms] sync_000_candidates [OF assms(1,2,4)]
    sync_001_attempts [OF assms] sync_000_attempts [OF assms(1,2,4)]
    sync_posts_001_skips [of "set (synced_posts w)" w net t c ps n]
    sync_posts_000_skips [of "set (synced_posts w)" w net t c ps n]
  then show ?thesis using warm first by simp
qed

section \<open>The examples, evaluated\<close>

lemmas example_defs = post_a_def post_b_def post_c_def post_d_def post_e_def post_bare_def
  accepted_def refused_def refused_unreadable_def items_of_def example_net_def example_body_def
  empty_body_def example_world_def

lemma example_configured: "\<not> missing_configuration example_body (example_world l)"
  by (simp add: missing_configuration_def resolve_def getSetting_def example_defs)

lemma example_upstream: "upstream (example_net b rs) body w = b"
  by (simp add: upstream_def example_net_def)

subsection \<open>Claim C2 on part_000\<close>

text \<open>
  Claim C2 at a failing input of part_000: the feed holds the posts a and c, and the
  call to Telegram for a throws. The throw leaves the loop: the answer is 500, c is never
  attempted and stays out of the ledger. On the same input part_001 catches the throw
  and delivers c.
\<close>

theorem part_000_item_failure_aborts_cycle:
  "fst (sync_000 one_outage example_body (example_world [])) =
     Json 500 (Error_Body ''fetch failed'') \<and>
   length (filter is_telegram_call
     (trace (snd (sync_000 one_outage example_body (example_world []))))) = 1 \<and>
   synced_posts (snd (sync_000 one_outage example_body (example_world []))) = [] \<and>
   fst (sync_001 one_outage example_body (example_world [])) =
     Json 200 (Sync_Body ''Sync complete'' 1) \<and>
   synced_posts (snd (sync_001 one_outage example_body (example_world []))) = [''c'']"
  by code_simp

theorem part_000_item_failure_aborts_cycle_witness:
  "status (fst (sync_000 one_outage example_body (example_world []))) = 500 \<and>
   ''c'' \<notin> set (synced_posts (snd (sync_000 one_outage example_body (example_world []))))"
  using part_000_item_failure_aborts_cycle by simp

subsection \<open>Claim C3 on part_000\<close>

text \<open>
  Claim C3 at a failing input of part_000: of a feed of four new posts, all four are
  examined, delivered and recorded in one cycle. On the same input part_001 stops after
  the first three.
\<close>

theorem part_000_processes_every_post:
  "fst (sync_000 four_posts example_body (example_world [])) =
     Json 200 (Sync_Body ''Sync complete'' 4) \<and>
   synced_posts (snd (sync_000 four_posts example_body (example_world []))) =
     [''a'', ''c'', ''d'', ''e''] \<and>
   fst (sync_001 four_posts example_body (example_world [])) =
     Json 200 (Sync_Body ''Sync complete'' 3) \<and>
   synced_posts (snd (sync_001 four_posts example_body (example_world []))) =
     [''a'', ''c'', ''d'']"
  by code_simp

theorem part_000_processes_every_post_witness:
  "''e'' \<in> set (synced_posts (snd (sync_000 four_posts example_body (example_world [])))) \<and>
   ''e'' \<notin> set (synced_posts (snd (sync_001 four_posts example_body (example_world []))))"
  using part_000_processes_every_post by simp

subsection \<open>Claim C7 on part_000\<close>

text \<open>
  Claim C7 at a failing input of part_000: Blogger answers with an error object and no
  items, and the handler answers 200 "No posts found", as for an empty feed. On the
  same input part_001 answers 400 with the upstream error.
\<close>

theorem part_000_upstream_error_is_empty_feed:
  "fst (sync_000 upstream_error example_body (example_world [])) =
     Json 200 (Sync_Body ''No posts found'' 0) \<and>
   filter is_console_error
     (trace (snd (sync_000 upstream_error example_body (example_world [])))) = [] \<and>
   fst (sync_000 empty_feed example_body (example_world [])) =
     Json 200 (Sync_Body ''Sync complete'' 0) \<and>
   fst (sync_001 upstream_error example_body (example_world [])) =
     Json 400 (Error_Body ''Blogger API Error: API key not valid'')"
  by code_simp

theorem part_000_upstream_error_is_empty_feed_witness:
  "status (fst (sync_000 upstream_error example_body (example_world []))) = 200 \<and>
   status (fst (sync_001 upstream_error example_body (example_world []))) = 400"
  using part_000_upstream_error_is_empty_feed by simp


section \<open>Witnesses, counterexamples and further examples\<close>

theorem ledger_written_only_after_successful_delivery_witness:
  "inserted (new_events (example_world []) (snd (sync_001 one_refusal example_body (example_world [])))) = [''c''] \<and>
   synced_posts (snd (sync_001 one_refusal example_body (example_world []))) = [''c''] \<and>
   justified
     (feed (new_events (example_world []) (snd (sync_001 one_refusal example_body (example_world [])))))
     None (new_events (example_world []) (snd (sync_001 one_refusal example_body (example_world [])))) \<and>
   inserted (new_events (example_world []) (snd (sync_000 one_refusal example_body (example_world [])))) = [''c''] \<and>
   justified
     (feed (new_events (example_world []) (snd (sync_000 one_refusal example_body (example_world [])))))
     None (new_events (example_world []) (snd (sync_000 one_refusal example_body (example_world []))))"
proof -
  have i1: "inserted (new_events (example_world [])
      (snd (sync_001 one_refusal example_body (example_world [])))) = [''c'']"
    by code_simp
  have i0: "inserted (new_events (example_world [])
      (snd (sync_000 one_refusal example_body (example_world [])))) = [''c'']"
    by code_simp
  have l: "synced_posts (example_world []) = []" by (simp add: example_world_def)
  show ?thesis
    using ledger_written_only_after_successful_delivery
      [of one_refusal example_body "example_world []"] i1 i0 l
    by simp
qed

theorem synced_posts_are_never_delivered_again_witness:
  "candidates (example_world [''a'']) (take 3 [post_a, post_c]) = [post_c] \<and>
   attempts_for [post_c]
     (new_events (example_world [''a'']) (snd (sync_001 two_posts example_body (example_world [''a''])))) \<and>
   attempts_for [post_c]
     (new_events (example_world [''a'']) (snd (sync_000 two_posts example_body (example_world [''a''])))) \<and>
   length (filter is_telegram_call
     (new_events (example_world [''a'']) (snd (sync_001 two_posts example_body (example_world [''a'']))))) = 1 \<and>
   length (filter is_telegram_call
     (new_events (example_world [''a'']) (snd (sync_000 two_posts example_body (example_world [''a'']))))) = 1 \<and>
   synced_posts (snd (sync_001 two_posts example_body (example_world [''a'']))) = [''a'', ''c''] \<and>
   sync_001 two_posts example_body (example_world [''a'', ''c'']) =
     (Json 200 (Sync_Body ''Sync complete'' 0),
      fetched two_posts example_body (example_world [''a'', ''c''])) \<and>
   sync_000 two_posts example_body (example_world [''a'', ''c'']) =
     (Json 200 (Sync_Body ''Sync complete'' 0),
      fetched two_posts example_body (example_world [''a'', ''c''])) \<and>
   filter is_telegram_call
     (new_events (example_world [''a'', ''c''])
        (fetched two_posts example_body (example_world [''a'', ''c'']))) = []"
proof -
  have up: "upstream two_posts example_body (example_world l) =
      Returns \<lparr>error = None, items = Some [post_a, post_c]\<rparr>" for l
    by (simp add: two_posts_def example_upstream items_of_def)
  have c: "candidates (example_world [''a'']) (take 3 [post_a, post_c]) = [post_c]"
    "candidates (example_world [''a'']) [post_a, post_c] = [post_c]"
    by (simp_all add: candidates_def example_world_def post_a_def post_c_def)
  have warm: "\<forall>p\<in>set [post_a, post_c]. post_id p \<in> set (synced_posts (example_world [''a'', ''c'']))"
    by (simp add: post_a_def post_c_def example_world_def)
  have n1: "length (filter is_telegram_call
     (new_events (example_world [''a'']) (snd (sync_001 two_posts example_body (example_world [''a'']))))) = 1"
    by code_simp
  have n0: "length (filter is_telegram_call
     (new_events (example_world [''a'']) (snd (sync_000 two_posts example_body (example_world [''a'']))))) = 1"
    by code_simp
  have l: "synced_posts (snd (sync_001 two_posts example_body (example_world [''a'']))) = [''a'', ''c'']"
    by code_simp
  have e: "error \<lparr>error = None, items = Some [post_a, post_c]\<rparr> = None"
    and i: "items \<lparr>error = None, items = Some [post_a, post_c]\<rparr> = Some [post_a, post_c]"
    by simp_all
  note mixed = synced_posts_are_never_delivered_again
    [OF example_configured [of "[''a'']"] up [of "[''a'']"] e i,
     where t = "[]" and c = "[]" and ps = "[]" and n = 0]
  note all = synced_posts_are_never_delivered_again
    [OF example_configured [of "[''a'', ''c'']"] up [of "[''a'', ''c'']"] e i,
     where t = "[]" and c = "[]" and ps = "[]" and n = 0]
  have a1: "attempts_for [post_c]
     (new_events (example_world [''a'']) (snd (sync_001 two_posts example_body (example_world [''a'']))))"
    and a0: "attempts_for [post_c]
     (new_events (example_world [''a'']) (snd (sync_000 two_posts example_body (example_world [''a'']))))"
    using mixed unfolding c by blast+
  have w1: "sync_001 two_posts example_body (example_world [''a'', ''c'']) =
     (Json 200 (Sync_Body ''Sync complete'' 0),
      fetched two_posts example_body (example_world [''a'', ''c'']))"
    and w0: "sync_000 two_posts example_body (example_world [''a'', ''c'']) =
     (Json 200 (Sync_Body ''Sync complete'' 0),
      fetched two_posts example_body (example_world [''a'', ''c'']))"
    using all warm by blast+
  have f: "filter is_telegram_call
     (new_events (example_world [''a'', ''c''])
        (fetched two_posts example_body (example_world [''a'', ''c'']))) = []"
    by (simp add: new_events_def)
  show ?thesis using a1 a0 w1 w0 f c(1) n1 n0 l by blast
qed

theorem empty_string_falls_through_witness:
  "resolve (Some []) (example_world []) ''TELEGRAM_BOT_TOKEN'' = Some ''t'' \<and>
   getSetting (setSetting ''BLOGGER_API_KEY'' [] (example_world [])) ''BLOGGER_API_KEY'' = Some ''k2'' \<and>
   sync_001 one_refusal (example_body\<lparr>TELEGRAM_BOT_TOKEN := Some []\<rparr>) (example_world []) =
     sync_001 one_refusal (example_body\<lparr>TELEGRAM_BOT_TOKEN := None\<rparr>) (example_world []) \<and>
   sync_000 one_refusal (example_body\<lparr>TELEGRAM_BOT_TOKEN := Some []\<rparr>) (example_world []) =
     sync_000 one_refusal (example_body\<lparr>TELEGRAM_BOT_TOKEN := None\<rparr>) (example_world [])"
proof -
  have g: "getSetting (example_world []) ''TELEGRAM_BOT_TOKEN'' = Some ''t''"
    by (simp add: getSetting_def example_world_def)
  have e: "environ (example_world []) ''BLOGGER_API_KEY'' = Some ''k2''"
    by (simp add: example_world_def)
  have "resolve (Some []) (example_world []) ''TELEGRAM_BOT_TOKEN'' = Some ''t''"
    using empty_string_falls_through
      [of "example_world []" "''TELEGRAM_BOT_TOKEN''" None one_refusal example_body] g
    by simp
  moreover have "getSetting (setSetting ''BLOGGER_API_KEY'' [] (example_world [])) ''BLOGGER_API_KEY'' = Some ''k2''"
    using empty_string_falls_through
      [of "example_world []" "''BLOGGER_API_KEY''" None one_refusal example_body] e
    by simp
  ultimately show ?thesis
    using empty_string_falls_through
      [of "example_world []" "''TELEGRAM_BOT_TOKEN''" None one_refusal example_body]
    by simp
qed

theorem missing_configuration_makes_no_network_call_witness:
  "fst (sync_001 one_refusal empty_body (example_world [])) =
     Json 400 (Error_Body ''Missing configuration. Please check your settings.'') \<and>
   filter is_network_call
     (new_events (example_world []) (snd (sync_001 one_refusal empty_body (example_world [])))) = [] \<and>
   sync_000 one_refusal empty_body (example_world []) =
     (Json 400 (Error_Body ''Missing configuration''), example_world [])"
proof -
  have "\<not> truthy (resolve (BLOGGER_BLOG_ID empty_body) (example_world []) ''BLOGGER_BLOG_ID'')"
    by (simp add: resolve_def getSetting_def empty_body_def example_world_def)
  from missing_configuration_makes_no_network_call [OF disjI2 [OF disjI1 [OF this]], of one_refusal]
  show ?thesis by simp
qed

theorem post_without_images_and_content_raises_witness:
  "sync_post_001 one_refusal ''t'' ''@c'' post_bare (example_world []) 0 =
     (console_error (Error_Processing_Post ''f'' match_of_undefined) (example_world []), 0) \<and>
   sync_post_000 one_refusal ''t'' ''@c'' post_bare (example_world []) 0 =
     (Some match_of_undefined, example_world [], 0)"
proof -
  have "images post_bare = None" "content post_bare = None" "post_id post_bare = ''f''"
    "post_id post_bare \<notin> set (synced_posts (example_world []))"
    by (simp_all add: post_bare_def example_world_def)
  from post_without_images_and_content_raises [OF this(1,2,4), of one_refusal "''t''" "''@c''" 0] this(3)
  show ?thesis by simp
qed


text \<open>
  Claim C5 at a failing input of the part_001 handler: post b has an image, and Telegram
  refuses both the photo and the text retry. The handler makes the two calls and then
  goes on as if nothing had happened: the block for the post throws nothing, the cycle
  answers 200 with count 0, and the error console holds the line of the first refusal
  only. No delivery error is surfaced. On the same input \<open>sendToTelegram\<close> makes the
  same two calls and then raises "Telegram failed", as the claim says; and the handler
  of part_000 makes the photo call alone, with no retry at all.
\<close>

theorem refused_retry_surfaces_no_error:
  "fst (try_post_001 photo_refused_twice ''t'' ''@c'' post_b (example_world []) 0) = None \<and>
   fst (sync_001 photo_refused_twice example_body (example_world [])) =
     Json 200 (Sync_Body ''Sync complete'' 0) \<and>
   map is_telegram_call (trace (snd (sync_001 photo_refused_twice example_body (example_world [])))) =
     [False, True, False, True] \<and>
   filter is_console_error
     (trace (snd (sync_001 photo_refused_twice example_body (example_world [])))) =
     [Console_Error (Telegram_Send_Failed ''{}'')] \<and>
   synced_posts (snd (sync_001 photo_refused_twice example_body (example_world []))) = [] \<and>
   fst (sendToTelegram photo_refused_twice (extractMovieDetails_001 post_b) ''u/b''
          (Some ''i/b'') (example_world [])) = Throws ''Telegram failed: {}'' \<and>
   length (filter is_telegram_call
     (trace (snd (sendToTelegram photo_refused_twice (extractMovieDetails_001 post_b) ''u/b''
                    (Some ''i/b'') (example_world []))))) = 2 \<and>
   length (filter is_telegram_call
     (trace (snd (sync_000 photo_refused_twice example_body (example_world []))))) = 1 \<and>
   synced_posts (snd (sync_000 photo_refused_twice example_body (example_world []))) = []"
  by code_simp

theorem refused_retry_surfaces_no_error_witness:
  "status (fst (sync_001 photo_refused_twice example_body (example_world []))) = 200 \<and>
   ''b'' \<notin> set (synced_posts (snd (sync_001 photo_refused_twice example_body (example_world [])))) \<and>
   fst (sendToTelegram photo_refused_twice (extractMovieDetails_001 post_b) ''u/b''
          (Some ''i/b'') (example_world [])) \<noteq> Returns ()"
  using refused_retry_surfaces_no_error by simp

text \<open>
  A refusal whose body is not JSON: reading the body throws before the retry, so the
  handler makes the photo call alone.
\<close>

lemma unreadable_refusal_is_not_retried:
  "length (filter is_telegram_call
     (trace (snd (sync_001 photo_refused_unreadable example_body (example_world []))))) = 1 \<and>
   synced_posts (snd (sync_001 photo_refused_unreadable example_body (example_world []))) = []"
  by code_simp

text \<open>The retry at an input where the text is accepted.\<close>

lemma refused_photo_is_retried_once_as_text_example:
  "length (filter is_telegram_call (new_events (example_world [])
     (fst (sync_post_001 photo_then_text ''t'' ''@c'' post_b (example_world []) 0)))) = 2 \<and>
   inserted (new_events (example_world [])
     (fst (sync_post_001 photo_then_text ''t'' ''@c'' post_b (example_world []) 0))) = [''b''] \<and>
   synced_posts (fst (sync_post_001 photo_then_text ''t'' ''@c'' post_b (example_world []) 0)) = [''b''] \<and>
   snd (sync_post_001 photo_then_text ''t'' ''@c'' post_b (example_world []) 0) = Suc 0"
proof -
  let ?full = "extractMovieDetails_001 post_b @ download_line @ template (url post_b)"
  let ?photoUrl = "''https://api.telegram.org/bot'' @ ''t'' @ ''/sendPhoto''"
  let ?textUrl = "''https://api.telegram.org/bot'' @ ''t'' @ ''/sendMessage''"
  let ?r1 = "\<lparr>ok = False, json = Returns ''{}''\<rparr>"
  let ?w2 = "console_error (Telegram_Send_Failed ''{}'')
      (emit (Telegram_Call ?photoUrl (Send_Photo ''@c'' ''i/b'' ?full) (Returns ?r1)) (example_world []))"
  let ?a2 = "telegram_api photo_then_text (trace ?w2) ?textUrl (Send_Message ''@c'' ?full)"
  have h1: "post_id post_b \<notin> set (synced_posts (example_world []))"
    by (simp add: example_world_def)
  have h2: "resolve_image post_b = Returns (Some ''i/b'')"
    by (simp add: resolve_image_def first_image_url_def post_b_def)
  have h3: "''i/b'' \<noteq> []" by simp
  have h7: "telegram_api photo_then_text (trace (example_world [])) ?photoUrl
      (Send_Photo ''@c'' ''i/b'' ?full) = Returns ?r1"
    by (simp add: photo_then_text_def example_net_def example_world_def refused_def)
  have h8: "\<not> ok ?r1" by simp
  have h9: "json ?r1 = Returns ''{}''" by simp
  have a2: "succeeded ?a2"
    by (simp add: photo_then_text_def example_net_def example_world_def accepted_def)
  have id: "post_id post_b = ''b''" "synced_posts (example_world []) = []"
    by (simp_all add: post_b_def example_world_def)
  from refused_photo_is_retried_once_as_text
    [OF h1 h2 h3 refl refl refl h7 h8 h9 refl refl, of 0]
  show ?thesis using a2 id by simp
qed

text \<open>
  Claim C8 as stated fails in the part_001 handler. A cycle in which the delivery of
  post a is refused answers exactly what a cycle with an empty feed answers: status
  200, "Sync complete", count 0. The failure is a line of the error console; the
  answer holds no list of errors.
\<close>

theorem failed_item_is_absent_from_result:
  "fst (sync_001 lone_refusal example_body (example_world [])) =
     Json 200 (Sync_Body ''Sync complete'' 0) \<and>
   fst (sync_001 empty_feed example_body (example_world [])) =
     Json 200 (Sync_Body ''Sync complete'' 0) \<and>
   synced_posts (snd (sync_001 lone_refusal example_body (example_world []))) = [] \<and>
   filter is_console_error
     (trace (snd (sync_001 lone_refusal example_body (example_world [])))) =
     [Console_Error (Telegram_Send_Failed ''{}'')] \<and>
   filter is_console_error
     (trace (snd (sync_001 empty_feed example_body (example_world [])))) = []"
  by code_simp

theorem sync_result_is_status_message_and_count_witness:
  "fst (sync_001 two_refusals example_body (example_world [])) =
     Json 200 (Sync_Body ''Sync complete''
       (length (inserted (new_events (example_world [])
          (snd (sync_001 two_refusals example_body (example_world []))))))) \<and>
   reported post_a None (new_events (example_world [])
     (snd (sync_001 two_refusals example_body (example_world [])))) \<and>
   reported post_c None (new_events (example_world [])
     (snd (sync_001 two_refusals example_body (example_world [])))) \<and>
   length (filter is_console_error (new_events (example_world [])
     (snd (sync_001 two_refusals example_body (example_world []))))) = 2"
proof -
  have up: "upstream two_refusals example_body (example_world []) =
      Returns \<lparr>error = None, items = Some [post_a, post_c]\<rparr>"
    by (simp add: two_refusals_def example_upstream items_of_def)
  have out: "post_id post_a \<notin> set (synced_posts (snd (sync_001 two_refusals example_body (example_world []))))"
    "post_id post_c \<notin> set (synced_posts (snd (sync_001 two_refusals example_body (example_world []))))"
    by code_simp+
  have two: "length (filter is_console_error (new_events (example_world [])
     (snd (sync_001 two_refusals example_body (example_world []))))) = 2"
    by code_simp
  note a = sync_result_is_status_message_and_count
    [of two_refusals example_body "example_world []" "\<lparr>error = None, items = Some [post_a, post_c]\<rparr>"
       "[post_a, post_c]" post_a]
  note c = sync_result_is_status_message_and_count
    [of two_refusals example_body "example_world []" "\<lparr>error = None, items = Some [post_a, post_c]\<rparr>"
       "[post_a, post_c]" post_c]
  show ?thesis using a c up out two example_configured [of "[]"] by simp
qed

end
